theory Spec2Isabelle
  imports Complex_Main "HOL-Library.AList" "HOL-Library.Log_Nat"
begin

section \<open>JavaScript values\<close>

text \<open>
  What \<open>JSON.parse\<close> returns and what the handlers build from it. \<open>JUndefined\<close> is the
  value of a missing property; it never comes out of \<open>JSON.parse\<close> but does come out of
  property reads. An object keeps its keys in insertion order, as an association list.
\<close>

datatype jsval =
    JUndefined
  | JNull
  | JBool bool
  | JNum rat
  | JStr string
  | JArr "jsval list"
  | JObj "(string \<times> jsval) list"

text \<open>
  What a \<open>throw\<close> threw: an \<open>ORPCError\<close> with its code and message, any other
  \<open>Error\<close> instance with its message, or a value that is not an \<open>Error\<close>.
\<close>

datatype orpc_code = UNAUTHORIZED | FORBIDDEN | NOT_FOUND | INTERNAL_ERROR

datatype thrown = ORPCError orpc_code string | Error string | NonError

text \<open>The outcome of a call that may throw.\<close>

datatype 'a io = Returns 'a | Throws thrown

text \<open>\<open>error instanceof Error ? error.message : dflt\<close>; an \<open>ORPCError\<close> is an \<open>Error\<close>.\<close>

fun error_message :: "thrown \<Rightarrow> string \<Rightarrow> string" where
  "error_message (ORPCError c msg) dflt = msg"
| "error_message (Error msg) dflt = msg"
| "error_message NonError dflt = dflt"

definition then_io :: "'a io \<Rightarrow> ('a \<Rightarrow> 'b io) \<Rightarrow> 'b io" where
  "then_io m k = (case m of Throws t \<Rightarrow> Throws t | Returns x \<Rightarrow> k x)"

text \<open>JavaScript truthiness, as used by \<open>!x\<close>, \<open>x && y\<close> and \<open>x || y\<close>.\<close>

fun truthy :: "jsval \<Rightarrow> bool" where
  "truthy JUndefined = False"
| "truthy JNull = False"
| "truthy (JBool b) = b"
| "truthy (JNum n) = (n \<noteq> 0)"
| "truthy (JStr s) = (s \<noteq> [])"
| "truthy (JArr xs) = True"
| "truthy (JObj kvs) = True"

text \<open>\<open>n.toString()\<close> for a natural number: its decimal digits.\<close>

function show_nat :: "nat \<Rightarrow> string" where
  "show_nat n =
     (if n < 10 then [''0123456789'' ! n]
      else show_nat (n div 10) @ [''0123456789'' ! (n mod 10)])"
  by pat_completeness auto
termination
  by (relation "measure id") auto

declare show_nat.simps [simp del]

text \<open>
  The own enumerable properties of a value, in order: what \<open>{...v}\<close> copies. An array and
  a string spread their indices; \<open>undefined\<close>, \<open>null\<close>, booleans and numbers spread nothing.
  A property is there once: of the entries of the representation that share a key, the
  first is the property and the others are ignored.
\<close>

fun entries :: "jsval \<Rightarrow> (string \<times> jsval) list" where
  "entries (JObj kvs) = kvs"
| "entries (JArr xs) = zip (map show_nat [0..<length xs]) xs"
| "entries (JStr s) = zip (map show_nat [0..<length s]) (map (\<lambda>c. JStr [c]) s)"
| "entries JUndefined = []"
| "entries JNull = []"
| "entries (JBool b) = []"
| "entries (JNum n) = []"

definition own_props :: "jsval \<Rightarrow> (string \<times> jsval) list" where
  "own_props v = AList.clearjunk (entries v)"

text \<open>
  An object literal: the entries are written in order, a later entry for a key that is
  already there replaces its value in place, a new key is appended.
\<close>

definition obj_entries :: "(string \<times> jsval) list \<Rightarrow> (string \<times> jsval) list" where
  "obj_entries es = fold (\<lambda>(k, v). AList.update k v) es []"

definition obj_lit :: "(string \<times> jsval) list \<Rightarrow> jsval" where
  "obj_lit es = JObj (obj_entries es)"

text \<open>
  \<open>v.k\<close> for a value that is neither \<open>null\<close> nor \<open>undefined\<close>: an own property, the
  \<open>length\<close> of an array or string, and \<open>undefined\<close> otherwise. Inherited members
  (methods) are not modelled; no property name the routes read is one.
\<close>

definition member :: "jsval \<Rightarrow> string \<Rightarrow> jsval" where
  "member v k =
     (case map_of (own_props v) k of
        Some x \<Rightarrow> x
      | None \<Rightarrow>
          (if k = ''length'' then
             (case v of JArr xs \<Rightarrow> JNum (of_nat (length xs))
                      | JStr s \<Rightarrow> JNum (of_nat (length s))
                      | _ \<Rightarrow> JUndefined)
           else JUndefined))"

definition nullish :: "jsval \<Rightarrow> bool" where
  "nullish v = (v = JUndefined \<or> v = JNull)"

text \<open>\<open>v?.k\<close>.\<close>

definition opt_prop :: "jsval \<Rightarrow> string \<Rightarrow> jsval" where
  "opt_prop v k = (if nullish v then JUndefined else member v k)"

text \<open>
  The library and engine functions the code calls: \<open>JSON.parse\<close>, the wording of the
  engine's TypeError for a property read on \<open>null\<close> or \<open>undefined\<close> and for a property
  write on a primitive, and the string conversion of numbers, arrays and objects.
\<close>

record js_lib =
  JSON_parse :: "string \<Rightarrow> jsval io"
  read_TypeError :: "jsval \<Rightarrow> string \<Rightarrow> string"
  write_TypeError :: "jsval \<Rightarrow> string \<Rightarrow> string"
  ToString :: "jsval \<Rightarrow> string"

text \<open>
  The string conversion of a template literal \<open>`${v}`\<close>, and of \<open>s + v\<close> for a string
  \<open>s\<close>: a string is itself, \<open>undefined\<close>, \<open>null\<close> and the booleans are their names, and
  the rest is the engine's.
\<close>

definition js_string :: "js_lib \<Rightarrow> jsval \<Rightarrow> string" where
  "js_string L v =
     (case v of
        JStr s \<Rightarrow> s
      | JUndefined \<Rightarrow> ''undefined''
      | JNull \<Rightarrow> ''null''
      | JBool b \<Rightarrow> (if b then ''true'' else ''false'')
      | _ \<Rightarrow> ToString L v)"





text \<open>\<open>v.k\<close>: a TypeError on \<open>null\<close> and \<open>undefined\<close>.\<close>

definition get_prop :: "js_lib \<Rightarrow> jsval \<Rightarrow> string \<Rightarrow> jsval io" where
  "get_prop L v k = (if nullish v then Throws (Error (read_TypeError L v k)) else Returns (member v k))"

text \<open>
  \<open>v.k = x\<close> in a module (strict mode), for a key that is a name (not an index or
  \<open>length\<close>), as far as \<open>JSON.stringify(v)\<close> sees it afterwards: an object gets the
  property, an array gets a property that \<open>JSON.stringify\<close> leaves out, anything else is a
  TypeError.
\<close>

definition set_prop :: "js_lib \<Rightarrow> jsval \<Rightarrow> string \<Rightarrow> jsval \<Rightarrow> jsval io" where
  "set_prop L v k x =
     (case v of
        JObj kvs \<Rightarrow> Returns (JObj (AList.update k x kvs))
      | JArr xs \<Rightarrow> Returns (JArr xs)
      | _ \<Rightarrow> Throws (Error (write_TypeError L v k)))"

text \<open>\<open>xs.join(sep)\<close> on strings.\<close>

fun join :: "string \<Rightarrow> string list \<Rightarrow> string" where
  "join sep [] = []"
| "join sep [x] = x"
| "join sep (x # y # ys) = x @ sep @ join sep (y # ys)"

text \<open>\<open>s.replace(/^pre/, rep)\<close> for a literal prefix \<open>pre\<close> and a replacement without \<open>$\<close>.\<close>

definition starts_with :: "string \<Rightarrow> string \<Rightarrow> bool" where
  "starts_with pre s = (take (length pre) s = pre)"

definition replace_prefix :: "string \<Rightarrow> string \<Rightarrow> string \<Rightarrow> string" where
  "replace_prefix pre rep s = (if starts_with pre s then rep @ drop (length pre) s else s)"

section \<open>The config manager (src/server/lib/config-manager.ts)\<close>

text \<open>
  What the three \<open>fs\<close> calls on \<open>CONFIG_FILE\<close> answer at the moment of one
  \<open>loadConfig\<close> call: \<open>existsSync\<close> never throws, \<open>statSync\<close> and \<open>readFileSync\<close> may.
\<close>

record config_file =
  existsSync :: bool
  statSync_mtimeMs :: "rat io"
  readFileSync :: "string io"

datatype fs_op = ExistsSync | StatSync | ReadFileSync

text \<open>The private fields of \<open>ConfigManager\<close>; \<open>JNull\<close> is the initial \<open>null\<close> cache.\<close>

record manager =
  cache :: jsval
  cacheTimestamp :: rat

definition new_manager :: manager where
  "new_manager = \<lparr>cache = JNull, cacheTimestamp = 0\<rparr>"

text \<open>
  \<open>loadConfig\<close>: the value returned, the manager afterwards and the \<open>fs\<close> calls made, in
  order. Every \<open>Throws\<close> branch is the
  \<open>catch\<close> block, which returns \<open>null\<close> and leaves the fields as they were.
\<close>

definition loadConfig ::
  "js_lib \<Rightarrow> config_file \<Rightarrow> manager \<Rightarrow> jsval \<times> manager \<times> fs_op list" where
  "loadConfig L f m =
    (if \<not> existsSync f then (JNull, m, [ExistsSync])
     else case statSync_mtimeMs f of
       Throws e \<Rightarrow> (JNull, m, [ExistsSync, StatSync])
     | Returns mtimeMs \<Rightarrow>
         if truthy (cache m) \<and> mtimeMs \<le> cacheTimestamp m
         then (cache m, m, [ExistsSync, StatSync])
         else (case readFileSync f of
           Throws e \<Rightarrow> (JNull, m, [ExistsSync, StatSync, ReadFileSync])
         | Returns configData \<Rightarrow>
             (case JSON_parse L configData of
               Throws e \<Rightarrow> (JNull, m, [ExistsSync, StatSync, ReadFileSync])
             | Returns config \<Rightarrow>
                 (config, m\<lparr>cache := config, cacheTimestamp := mtimeMs\<rparr>,
                  [ExistsSync, StatSync, ReadFileSync]))))"

definition getConfig ::
  "js_lib \<Rightarrow> config_file \<Rightarrow> manager \<Rightarrow> jsval \<times> manager \<times> fs_op list" where
  "getConfig L f m = loadConfig L f m"

definition invalidateCache :: "manager \<Rightarrow> manager" where
  "invalidateCache m = m\<lparr>cache := JNull, cacheTimestamp := 0\<rparr>"

definition getAtlasConfig :: "js_lib \<Rightarrow> config_file \<Rightarrow> manager \<Rightarrow> jsval \<times> manager" where
  "getAtlasConfig L f m =
     (case getConfig L f m of (config, m', ops) \<Rightarrow>
        (if truthy (opt_prop config ''atlasConfig'') then opt_prop config ''atlasConfig'' else JNull, m'))"

section \<open>Requests to the Atlas API\<close>

text \<open>
  A \<open>fetch\<close> call as the routes make it: the URL, the method, the \<open>Authorization\<close>
  and \<open>Content-Type\<close> headers and the body (none, \<open>JSON.stringify\<close> of a value, or the
  incoming request's stream). What comes back is a response whose \<open>text()\<close> and \<open>json()\<close>
  may throw.
\<close>

datatype fetch_body = NoBody | JsonBody jsval | StreamBody

record fetch_request =
  rq_url :: string
  rq_method :: string
  rq_authorization :: string
  rq_content_type :: "string option"
  rq_body :: fetch_body

record upstream_response =
  resp_ok :: bool
  resp_statusText :: string
  resp_text :: "string io"
  resp_json :: "jsval io"

section \<open>Handlers with effects\<close>

text \<open>
  What a handler does to the world, in order. \<open>WriteFileSync v\<close> is
  \<open>fs.writeFileSync(CONFIG_FILE, JSON.stringify(v, null, 2), "utf-8")\<close>; \<open>AuthApi name body\<close>
  is a call of the authentication library's \<open>auth.api[name]\<close>; \<open>Audit a\<close> is
  \<open>AuditService.logAction(a)\<close>; \<open>Fetch rq\<close> is a \<open>fetch\<close> that was sent. A call that
  throws leaves no effect, except a \<open>fetch\<close>, which is recorded when it is attempted.
\<close>

datatype effect =
    MkdirSync
  | WriteFileSync jsval
  | InvalidateCache
  | ResetAuth
  | ReconnectDatabase
  | Migrate
  | AuthApi string jsval
  | Audit jsval
  | Fetch fetch_request

type_synonym 'a act = "'a io \<times> effect list"

definition call :: "effect \<Rightarrow> 'a io \<Rightarrow> 'a act" where
  "call eff m = (case m of Returns x \<Rightarrow> (Returns x, [eff]) | Throws t \<Rightarrow> (Throws t, []))"

definition attempt :: "effect \<Rightarrow> 'a io \<Rightarrow> 'a act" where
  "attempt eff m = (m, [eff])"

definition done_act :: "'a \<Rightarrow> 'a act" where
  "done_act x = (Returns x, [])"

definition throw_act :: "thrown \<Rightarrow> 'a act" where
  "throw_act t = (Throws t, [])"

definition lift_io :: "'a io \<Rightarrow> 'a act" where
  "lift_io m = (m, [])"

definition bind_act :: "'a act \<Rightarrow> ('a \<Rightarrow> 'b act) \<Rightarrow> 'b act" where
  "bind_act m k =
     (case m of
        (Throws t, es) \<Rightarrow> (Throws t, es)
      | (Returns x, es) \<Rightarrow> (case k x of (r, es') \<Rightarrow> (r, es @ es')))"

text \<open>\<open>try { m } catch (error) { h error }\<close>.\<close>

definition catch_act :: "'a act \<Rightarrow> (thrown \<Rightarrow> 'a act) \<Rightarrow> 'a act" where
  "catch_act m h =
     (case m of
        (Throws t, es) \<Rightarrow> (case h t of (r, es') \<Rightarrow> (r, es @ es'))
      | (Returns x, es) \<Rightarrow> (Returns x, es))"

text \<open>The values written to the config file among the effects, in order.\<close>

fun writes :: "effect list \<Rightarrow> jsval list" where
  "writes [] = []"
| "writes (WriteFileSync v # es) = v # writes es"
| "writes (MkdirSync # es) = writes es"
| "writes (InvalidateCache # es) = writes es"
| "writes (ResetAuth # es) = writes es"
| "writes (ReconnectDatabase # es) = writes es"
| "writes (Migrate # es) = writes es"
| "writes (AuthApi n b # es) = writes es"
| "writes (Audit a # es) = writes es"
| "writes (Fetch rq # es) = writes es"

text \<open>
  What the server-side calls answer during one handler run: the \<open>fs\<close> calls on the
  config directory and file, the database reconnect and migration, the environment
  variable, the random draw \<open>randomBytes(32).toString("base64")\<close>, the clock
  \<open>new Date().toISOString()\<close> and \<open>packageJson.version\<close> (package.json is not among the
  sources, so the version is a parameter).
\<close>

record server_env =
  dir_exists :: bool
  mkdirSync :: "unit io"
  writeFileSync :: "unit io"
  reconnectDatabase :: "unit io"
  migrate :: "unit io"
  BETTER_AUTH_SECRET :: "string option"
  randomBytes_base64 :: string
  now_ISOString :: string
  package_version :: string

definition ensureConfigDir :: "server_env \<Rightarrow> unit act" where
  "ensureConfigDir e = (if \<not> dir_exists e then call MkdirSync (mkdirSync e) else done_act ())"

section \<open>The setup routes (src/server/routes/setup.route.ts)\<close>

text \<open>
  The inputs after validation by their zod schemas. An optional key is missing, given as
  \<open>undefined\<close>, or given with a value.
\<close>

datatype 'a optional = Missing | Undef | Given 'a

fun optional_entry :: "string \<Rightarrow> ('a \<Rightarrow> jsval) \<Rightarrow> 'a optional \<Rightarrow> (string \<times> jsval) list" where
  "optional_entry k f Missing = []"
| "optional_entry k f Undef = [(k, JUndefined)]"
| "optional_entry k f (Given x) = [(k, f x)]"

record postgresConfig_in =
  pg_host :: string
  pg_port :: rat
  pg_database :: string
  pg_username :: string
  pg_password :: string

record oidcConfig_in =
  oidc_provider :: string
  oidc_providerName :: string
  oidc_clientId :: string
  oidc_clientSecret :: string
  oidc_authorizationUrl :: string
  oidc_tokenUrl :: string
  oidc_userInfoUrl :: string

record atlasConfig_in =
  atlas_baseUrl :: string
  atlas_atlasUrl :: string
  atlas_atlasApiKey :: string

record brandingConfig_in =
  brand_displayName :: string
  brand_logo :: "string optional"
  brand_primaryColor :: string
  brand_backgroundImage :: "string optional"

record setup_input =
  in_postgresConfig :: postgresConfig_in
  in_oidcConfig :: oidcConfig_in
  in_atlasConfig :: atlasConfig_in
  in_brandingConfig :: brandingConfig_in

text \<open>The own properties of each validated input object, in schema order.\<close>

definition postgresConfig_props :: "postgresConfig_in \<Rightarrow> (string \<times> jsval) list" where
  "postgresConfig_props i =
     [(''host'', JStr (pg_host i)), (''port'', JNum (pg_port i)),
      (''database'', JStr (pg_database i)), (''username'', JStr (pg_username i)),
      (''password'', JStr (pg_password i))]"

definition oidcConfig_props :: "oidcConfig_in \<Rightarrow> (string \<times> jsval) list" where
  "oidcConfig_props i =
     [(''provider'', JStr (oidc_provider i)), (''providerName'', JStr (oidc_providerName i)),
      (''clientId'', JStr (oidc_clientId i)), (''clientSecret'', JStr (oidc_clientSecret i)),
      (''authorizationUrl'', JStr (oidc_authorizationUrl i)),
      (''tokenUrl'', JStr (oidc_tokenUrl i)), (''userInfoUrl'', JStr (oidc_userInfoUrl i))]"

definition atlasConfig_props :: "atlasConfig_in \<Rightarrow> (string \<times> jsval) list" where
  "atlasConfig_props i =
     [(''baseUrl'', JStr (atlas_baseUrl i)), (''atlasUrl'', JStr (atlas_atlasUrl i)),
      (''atlasApiKey'', JStr (atlas_atlasApiKey i))]"

definition brandingConfig_props :: "brandingConfig_in \<Rightarrow> (string \<times> jsval) list" where
  "brandingConfig_props i =
     [(''displayName'', JStr (brand_displayName i))]
     @ optional_entry ''logo'' JStr (brand_logo i)
     @ [(''primaryColor'', JStr (brand_primaryColor i))]
     @ optional_entry ''backgroundImage'' JStr (brand_backgroundImage i)"

definition setup_input_props :: "setup_input \<Rightarrow> (string \<times> jsval) list" where
  "setup_input_props i =
     [(''postgresConfig'', JObj (postgresConfig_props (in_postgresConfig i))),
      (''oidcConfig'', JObj (oidcConfig_props (in_oidcConfig i))),
      (''atlasConfig'', JObj (atlasConfig_props (in_atlasConfig i))),
      (''brandingConfig'', JObj (brandingConfig_props (in_brandingConfig i)))]"

text \<open>
  \<open>atlasUrl.replace(/^https:\/\//, "wss://").replace(/^http:\/\//, "ws://")\<close>.
\<close>

definition websocketUrl_of :: "string \<Rightarrow> string" where
  "websocketUrl_of atlasUrl =
     replace_prefix ''http://'' ''ws://'' (replace_prefix ''https://'' ''wss://'' atlasUrl)"

text \<open>\<open>process.env.BETTER_AUTH_SECRET || randomBytes(32).toString("base64")\<close>.\<close>

definition setup_secret :: "server_env \<Rightarrow> string" where
  "setup_secret e =
     (case BETTER_AUTH_SECRET e of
        Some s \<Rightarrow> if s \<noteq> [] then s else randomBytes_base64 e
      | None \<Rightarrow> randomBytes_base64 e)"

definition configWithTimestamp :: "server_env \<Rightarrow> setup_input \<Rightarrow> jsval" where
  "configWithTimestamp e i =
     obj_lit (setup_input_props i @
       [(''oidcConfig'',
           obj_lit (oidcConfig_props (in_oidcConfig i) @ [(''secret'', JStr (setup_secret e))])),
        (''atlasConfig'',
           obj_lit (atlasConfig_props (in_atlasConfig i) @
             [(''websocketUrl'', JStr (websocketUrl_of (atlas_atlasUrl (in_atlasConfig i))))])),
        (''completedAt'', JStr (now_ISOString e)),
        (''version'', JStr (package_version e))])"

definition saveSetupConfig :: "server_env \<Rightarrow> setup_input \<Rightarrow> jsval act" where
  "saveSetupConfig e i =
     catch_act
       (bind_act (ensureConfigDir e) (\<lambda>_.
        bind_act (call (WriteFileSync (configWithTimestamp e i)) (writeFileSync e)) (\<lambda>_.
        bind_act (call InvalidateCache (Returns ())) (\<lambda>_.
        bind_act (call ResetAuth (Returns ())) (\<lambda>_.
        bind_act (call ReconnectDatabase (reconnectDatabase e)) (\<lambda>_.
        bind_act (call Migrate (migrate e)) (\<lambda>_.
        done_act (obj_lit
          [(''success'', JBool True),
           (''message'', JStr ''Setup configuration saved successfully''),
           (''config'', configWithTimestamp e i)]))))))))
       (\<lambda>error. throw_act (ORPCError INTERNAL_ERROR
          (''Failed to save setup configuration: '' @ error_message error ''Unknown error'')))"

text \<open>
  The check that opens each of the three test handlers: when the config file exists and
  its \<open>completedAt\<close> is truthy, an \<open>ORPCError("FORBIDDEN")\<close> with the handler's message is
  thrown (inside the handler's \<open>try\<close>).
\<close>

definition completed_check :: "js_lib \<Rightarrow> config_file \<Rightarrow> string \<Rightarrow> unit io" where
  "completed_check L f msg =
     (if existsSync f then
        then_io (readFileSync f) (\<lambda>configData.
        then_io (JSON_parse L configData) (\<lambda>config.
        then_io (get_prop L config ''completedAt'') (\<lambda>completedAt.
          if truthy completedAt then Throws (ORPCError FORBIDDEN msg) else Returns ())))
      else Returns ())"

text \<open>
  What the services probed by the test handlers answer: the \<open>SELECT 1\<close> on a fresh
  connection and its \<open>end()\<close>, a \<open>HEAD\<close> request (the response status, or a throw, which
  includes the 3 second timeout), and \<open>createAtlasClient(baseUrl, apiKey).getStatus()\<close>.
\<close>

record probe_env =
  select_1 :: "postgresConfig_in \<Rightarrow> unit io"
  sql_end :: "postgresConfig_in \<Rightarrow> unit io"
  fetch_HEAD :: "string \<Rightarrow> nat io"
  atlas_getStatus :: "string \<Rightarrow> string \<Rightarrow> jsval io"

definition failure_result :: "thrown \<Rightarrow> string \<Rightarrow> jsval" where
  "failure_result error dflt =
     obj_lit [(''success'', JBool False), (''message'', JStr (error_message error dflt))]"

definition testPostgresConnection ::
  "js_lib \<Rightarrow> config_file \<Rightarrow> probe_env \<Rightarrow> postgresConfig_in \<Rightarrow> jsval io" where
  "testPostgresConnection L f p i =
     (case
        then_io (completed_check L f
          ''Setup has already been completed. Cannot test database connection.'') (\<lambda>_.
        then_io (select_1 p i) (\<lambda>_.
        then_io (sql_end p i) (\<lambda>_.
        Returns (obj_lit
          [(''success'', JBool True), (''message'', JStr ''Database connection successful'')]))))
      of Returns r \<Rightarrow> Returns r
       | Throws error \<Rightarrow> Returns (failure_result error ''Unknown database error''))"

record oidc_test_in =
  ot_provider :: string
  ot_authorizationUrl :: string
  ot_tokenUrl :: string
  ot_userInfoUrl :: string
  ot_clientId :: string

definition url_reachable :: "probe_env \<Rightarrow> string \<Rightarrow> bool" where
  "url_reachable p url = (case fetch_HEAD p url of Returns status \<Rightarrow> status < 500 | Throws t \<Rightarrow> False)"

definition testOidcConnection ::
  "js_lib \<Rightarrow> config_file \<Rightarrow> probe_env \<Rightarrow> oidc_test_in \<Rightarrow> jsval io" where
  "testOidcConnection L f p i =
     (case
        then_io (completed_check L f
          ''Setup has already been completed. Cannot test OIDC connection.'') (\<lambda>_.
        let urls = [ot_authorizationUrl i, ot_tokenUrl i, ot_userInfoUrl i];
            results = map (\<lambda>url. (url, url_reachable p url)) urls;
            unreachableUrls = filter (\<lambda>r. \<not> snd r) results
        in if length unreachableUrls > 0 then
             Returns (obj_lit
               [(''success'', JBool False),
                (''message'', JStr (''Unable to reach: '' @ join '', '' (map fst unreachableUrls)))])
           else
             Returns (obj_lit
               [(''success'', JBool True),
                (''message'', JStr ''OIDC configuration validated successfully'')]))
      of Returns r \<Rightarrow> Returns r
       | Throws error \<Rightarrow> Returns (failure_result error ''Unknown OIDC validation error''))"

record atlas_test_in =
  at_baseUrl :: string
  at_apiKey :: string

definition testAtlasConnection ::
  "js_lib \<Rightarrow> config_file \<Rightarrow> probe_env \<Rightarrow> atlas_test_in \<Rightarrow> jsval io" where
  "testAtlasConnection L f p i =
     (case
        then_io (completed_check L f
          ''Setup has already been completed. Cannot test Atlas connection.'') (\<lambda>_.
        then_io (atlas_getStatus p (at_baseUrl i) (at_apiKey i)) (\<lambda>status.
        Returns (obj_lit
          [(''success'', JBool True), (''message'', JStr ''Atlas API connection successful''),
           (''data'', status)])))
      of Returns r \<Rightarrow> Returns r
       | Throws error \<Rightarrow> Returns (failure_result error ''Unknown Atlas API error''))"

section \<open>The admin routes (admin.route.ts, the version with \<open>requireAdmin\<close>)\<close>

text \<open>
  What the authentication library answers: \<open>auth.api.getSession\<close>, the admin-only
  \<open>listUsers\<close>, and the admin calls \<open>auth.api[name]({headers, body})\<close>.
\<close>

record auth_env =
  getSession :: "jsval io"
  listUsers :: "jsval io"
  auth_api :: "string \<Rightarrow> jsval \<Rightarrow> jsval io"

definition requireAdmin :: "auth_env \<Rightarrow> jsval io" where
  "requireAdmin A =
     (case getSession A of
        Throws t \<Rightarrow> Throws t
      | Returns session \<Rightarrow>
          if \<not> truthy (opt_prop session ''user'') then
            Throws (ORPCError UNAUTHORIZED ''Authentication required'')
          else
            (case listUsers A of
               Throws t \<Rightarrow> Throws (ORPCError FORBIDDEN ''Admin role required'')
             | Returns users \<Rightarrow> Returns (opt_prop session ''user'')))"

text \<open>The object literal that \<open>getConfig\<close> returns, for a \<open>config\<close> that is not \<open>null\<close>.\<close>

definition getConfig_response :: "jsval \<Rightarrow> jsval" where
  "getConfig_response config =
     obj_lit
       [(''postgresConfig'', obj_lit
           [(''host'', opt_prop (member config ''postgresConfig'') ''host''),
            (''port'', opt_prop (member config ''postgresConfig'') ''port''),
            (''database'', opt_prop (member config ''postgresConfig'') ''database''),
            (''username'', opt_prop (member config ''postgresConfig'') ''username'')]),
        (''oidcConfig'', obj_lit
           [(''provider'', opt_prop (member config ''oidcConfig'') ''provider''),
            (''providerName'', opt_prop (member config ''oidcConfig'') ''providerName''),
            (''clientId'', opt_prop (member config ''oidcConfig'') ''clientId''),
            (''authorizationUrl'', opt_prop (member config ''oidcConfig'') ''authorizationUrl''),
            (''tokenUrl'', opt_prop (member config ''oidcConfig'') ''tokenUrl''),
            (''userInfoUrl'', opt_prop (member config ''oidcConfig'') ''userInfoUrl''),
            (''scopes'', opt_prop (member config ''oidcConfig'') ''scopes'')]),
        (''atlasConfig'', obj_lit
           [(''baseUrl'', opt_prop (member config ''atlasConfig'') ''baseUrl''),
            (''atlasUrl'', opt_prop (member config ''atlasConfig'') ''atlasUrl''),
            (''websocketUrl'', opt_prop (member config ''atlasConfig'') ''websocketUrl'')]),
        (''brandingConfig'', member config ''brandingConfig'')]"

definition admin_getConfig :: "js_lib \<Rightarrow> auth_env \<Rightarrow> config_file \<Rightarrow> jsval io" where
  "admin_getConfig L A f =
     then_io (requireAdmin A) (\<lambda>_.
       case
         (if \<not> existsSync f then Throws (ORPCError NOT_FOUND ''Configuration file not found'')
          else
            then_io (readFileSync f) (\<lambda>configData.
            then_io (JSON_parse L configData) (\<lambda>config.
            then_io (get_prop L config ''postgresConfig'') (\<lambda>_.
            Returns (getConfig_response config)))))
       of Returns r \<Rightarrow> Returns r
        | Throws error \<Rightarrow> Throws (ORPCError INTERNAL_ERROR
            (''Failed to read configuration: '' @ error_message error ''Unknown error'')))"

text \<open>
  The opening of the four update handlers' \<open>try\<close> blocks: \<open>ensureConfigDir()\<close>, the
  \<open>NOT_FOUND\<close> throw when the file is missing, \<open>readFileSync\<close> and \<open>JSON.parse\<close>.
\<close>

definition read_stored_config :: "js_lib \<Rightarrow> server_env \<Rightarrow> config_file \<Rightarrow> jsval act" where
  "read_stored_config L e f =
     bind_act (ensureConfigDir e) (\<lambda>_.
       if \<not> existsSync f then throw_act (ORPCError NOT_FOUND ''Configuration file not found'')
       else lift_io (then_io (readFileSync f) (JSON_parse L)))"

definition updateDatabaseConfig ::
  "js_lib \<Rightarrow> auth_env \<Rightarrow> server_env \<Rightarrow> config_file \<Rightarrow> postgresConfig_in \<Rightarrow> jsval act" where
  "updateDatabaseConfig L A e f i =
     (case requireAdmin A of
        Throws t \<Rightarrow> throw_act t
      | Returns user \<Rightarrow>
          catch_act
            (bind_act (read_stored_config L e f) (\<lambda>config.
             bind_act (lift_io (get_prop L config ''postgresConfig'')) (\<lambda>old.
             bind_act (lift_io (set_prop L config ''postgresConfig''
                 (obj_lit (own_props old @ postgresConfig_props i)))) (\<lambda>config'.
             bind_act (call (WriteFileSync config') (writeFileSync e)) (\<lambda>_.
             bind_act (call InvalidateCache (Returns ())) (\<lambda>_.
             bind_act (call ReconnectDatabase (reconnectDatabase e)) (\<lambda>_.
             done_act (obj_lit
               [(''success'', JBool True),
                (''message'', JStr ''Database configuration updated successfully'')]))))))))
            (\<lambda>error. throw_act (ORPCError INTERNAL_ERROR
               (''Failed to update database configuration: ''
                @ error_message error ''Unknown error''))))"

record authConfig_update =
  au_oidc :: oidcConfig_in
  au_scopes :: "string list optional"

definition authConfig_update_props :: "authConfig_update \<Rightarrow> (string \<times> jsval) list" where
  "authConfig_update_props i =
     oidcConfig_props (au_oidc i) @ optional_entry ''scopes'' (\<lambda>xs. JArr (map JStr xs)) (au_scopes i)"

definition updateAuthConfig ::
  "js_lib \<Rightarrow> auth_env \<Rightarrow> server_env \<Rightarrow> config_file \<Rightarrow> authConfig_update \<Rightarrow> jsval act" where
  "updateAuthConfig L A e f i =
     (case requireAdmin A of
        Throws t \<Rightarrow> throw_act t
      | Returns user \<Rightarrow>
          catch_act
            (bind_act (read_stored_config L e f) (\<lambda>config.
             bind_act (lift_io (get_prop L config ''oidcConfig'')) (\<lambda>old.
             bind_act (lift_io (set_prop L config ''oidcConfig''
                 (obj_lit (own_props old @ authConfig_update_props i)))) (\<lambda>config'.
             bind_act (call (WriteFileSync config') (writeFileSync e)) (\<lambda>_.
             bind_act (call InvalidateCache (Returns ())) (\<lambda>_.
             bind_act (call ResetAuth (Returns ())) (\<lambda>_.
             done_act (obj_lit
               [(''success'', JBool True),
                (''message'', JStr ''Authentication configuration updated successfully'')]))))))))
            (\<lambda>error. throw_act (ORPCError INTERNAL_ERROR
               (''Failed to update authentication configuration: ''
                @ error_message error ''Unknown error''))))"

definition updateAtlasConfig ::
  "js_lib \<Rightarrow> auth_env \<Rightarrow> server_env \<Rightarrow> config_file \<Rightarrow> atlasConfig_in \<Rightarrow> jsval act" where
  "updateAtlasConfig L A e f i =
     (case requireAdmin A of
        Throws t \<Rightarrow> throw_act t
      | Returns user \<Rightarrow>
          catch_act
            (bind_act (read_stored_config L e f) (\<lambda>config.
             bind_act (lift_io (get_prop L config ''atlasConfig'')) (\<lambda>old.
             bind_act (lift_io (set_prop L config ''atlasConfig''
                 (obj_lit (own_props old @ atlasConfig_props i @
                    [(''websocketUrl'', JStr (websocketUrl_of (atlas_atlasUrl i)))])))) (\<lambda>config'.
             bind_act (call (WriteFileSync config') (writeFileSync e)) (\<lambda>_.
             bind_act (call InvalidateCache (Returns ())) (\<lambda>_.
             done_act (obj_lit
               [(''success'', JBool True),
                (''message'', JStr ''Atlas API configuration updated successfully'')])))))))
            (\<lambda>error. throw_act (ORPCError INTERNAL_ERROR
               (''Failed to update Atlas API configuration: ''
                @ error_message error ''Unknown error''))))"

record brandingConfig_update =
  bu_displayName :: string
  bu_logo :: "string optional"
  bu_favicon :: "string optional"
  bu_primaryColor :: string
  bu_backgroundImage :: "string optional"

definition brandingConfig_update_props :: "brandingConfig_update \<Rightarrow> (string \<times> jsval) list" where
  "brandingConfig_update_props i =
     [(''displayName'', JStr (bu_displayName i))]
     @ optional_entry ''logo'' JStr (bu_logo i)
     @ optional_entry ''favicon'' JStr (bu_favicon i)
     @ [(''primaryColor'', JStr (bu_primaryColor i))]
     @ optional_entry ''backgroundImage'' JStr (bu_backgroundImage i)"

definition updateBrandingConfig ::
  "js_lib \<Rightarrow> auth_env \<Rightarrow> server_env \<Rightarrow> config_file \<Rightarrow> brandingConfig_update \<Rightarrow> jsval act" where
  "updateBrandingConfig L A e f i =
     (case requireAdmin A of
        Throws t \<Rightarrow> throw_act t
      | Returns user \<Rightarrow>
          catch_act
            (bind_act (read_stored_config L e f) (\<lambda>config.
             bind_act (lift_io (get_prop L config ''brandingConfig'')) (\<lambda>old.
             bind_act (lift_io (set_prop L config ''brandingConfig''
                 (obj_lit (own_props old @ brandingConfig_update_props i)))) (\<lambda>config'.
             bind_act (call (WriteFileSync config') (writeFileSync e)) (\<lambda>_.
             bind_act (call InvalidateCache (Returns ())) (\<lambda>_.
             done_act (obj_lit
               [(''success'', JBool True),
                (''message'', JStr ''Branding configuration updated successfully'')])))))))
            (\<lambda>error. throw_act (ORPCError INTERNAL_ERROR
               (''Failed to update branding configuration: ''
                @ error_message error ''Unknown error''))))"

text \<open>
  The user-management handlers. Each builds the \<open>body\<close> of the library call from its
  input; a missing optional input reads as \<open>undefined\<close>.
\<close>

fun optional_value :: "('a \<Rightarrow> jsval) \<Rightarrow> 'a optional \<Rightarrow> jsval" where
  "optional_value f Missing = JUndefined"
| "optional_value f Undef = JUndefined"
| "optional_value f (Given x) = f x"

definition user_operation ::
  "auth_env \<Rightarrow> string \<Rightarrow> jsval \<Rightarrow> string \<Rightarrow> string \<Rightarrow> jsval act" where
  "user_operation A name body ok_message failure_prefix =
     (case requireAdmin A of
        Throws t \<Rightarrow> throw_act t
      | Returns user \<Rightarrow>
          catch_act
            (bind_act (call (AuthApi name body) (auth_api A name body)) (\<lambda>_.
             done_act (obj_lit [(''success'', JBool True), (''message'', JStr ok_message)])))
            (\<lambda>error. throw_act (ORPCError INTERNAL_ERROR
               (failure_prefix @ error_message error ''Unknown error''))))"

definition updateUserRole :: "auth_env \<Rightarrow> string \<Rightarrow> string \<Rightarrow> jsval act" where
  "updateUserRole A userId role =
     user_operation A ''setRole''
       (obj_lit [(''userId'', JStr userId), (''role'', JStr role)])
       ''User role updated successfully'' ''Failed to update user role: ''"

definition banUser ::
  "auth_env \<Rightarrow> string \<Rightarrow> string optional \<Rightarrow> string optional \<Rightarrow> jsval act" where
  "banUser A userId reason expiresAt =
     user_operation A ''banUser''
       (obj_lit [(''userId'', JStr userId), (''reason'', optional_value JStr reason),
                 (''expiresAt'', optional_value JStr expiresAt)])
       ''User banned successfully'' ''Failed to ban user: ''"

definition unbanUser :: "auth_env \<Rightarrow> string \<Rightarrow> jsval act" where
  "unbanUser A userId =
     user_operation A ''unbanUser'' (obj_lit [(''userId'', JStr userId)])
       ''User unbanned successfully'' ''Failed to unban user: ''"

definition deleteUser :: "auth_env \<Rightarrow> string \<Rightarrow> jsval act" where
  "deleteUser A userId =
     user_operation A ''removeUser'' (obj_lit [(''userId'', JStr userId)])
       ''User deleted successfully'' ''Failed to delete user: ''"

section \<open>The upload routes\<close>

text \<open>
  The incoming request as a route reads it, and the services it calls:
  \<open>auth.api.getSession\<close>, \<open>request.json()\<close>, the \<open>path\<close> query parameter, \<open>fetch\<close> and
  \<open>AuditService.logAction\<close>. A route reads the Atlas settings through the config manager,
  one \<open>getAtlasConfig()\<close> call per setting; the manager after the route is not returned.
\<close>

record route_env =
  req_session :: "jsval io"
  req_json :: "jsval io"
  req_path_param :: "string option"
  fetch :: "fetch_request \<Rightarrow> upstream_response io"
  logAction :: "jsval \<Rightarrow> unit io"

datatype payload = Text string | Json jsval

record response =
  res_status :: nat
  res_payload :: payload

definition text_response :: "nat \<Rightarrow> string \<Rightarrow> response" where
  "text_response st msg = \<lparr>res_status = st, res_payload = Text msg\<rparr>"

definition json_response :: "nat \<Rightarrow> jsval \<Rightarrow> response" where
  "json_response st v = \<lparr>res_status = st, res_payload = Json v\<rparr>"

text \<open>The HTTP status a route answers with, when it answers.\<close>

definition status_of :: "response act \<Rightarrow> nat option" where
  "status_of a = (case fst a of Returns r \<Rightarrow> Some (res_status r) | Throws t \<Rightarrow> None)"


text \<open>\<open>const { k = dflt } = body\<close>: the default applies when the property is \<open>undefined\<close>.\<close>

definition member_default :: "jsval \<Rightarrow> string \<Rightarrow> jsval \<Rightarrow> jsval" where
  "member_default v k dflt = (if member v k = JUndefined then dflt else member v k)"

text \<open>
  The two settings read at the top of each route:
  \<open>configManager.getAtlasConfig()?.atlasUrl\<close>, then \<open>...?.atlasApiKey\<close>.
\<close>

definition atlas_settings :: "js_lib \<Rightarrow> config_file \<Rightarrow> manager \<Rightarrow> jsval \<times> jsval \<times> manager" where
  "atlas_settings L f m =
     (case getAtlasConfig L f m of (ac1, m1) \<Rightarrow>
      case getAtlasConfig L f m1 of (ac2, m2) \<Rightarrow>
        (opt_prop ac1 ''atlasUrl'', opt_prop ac2 ''atlasApiKey'', m2))"

text \<open>
  \<open>if (!atlasResponse.ok) throw new Error(`Atlas API Error: ${errorText || statusText}`)\<close>,
  then \<open>await atlasResponse.json()\<close>.
\<close>

definition checked_json :: "upstream_response \<Rightarrow> jsval act" where
  "checked_json r =
     (if \<not> resp_ok r then
        bind_act (lift_io (resp_text r)) (\<lambda>errorText.
          throw_act (Error (''Atlas API Error: ''
            @ (if errorText \<noteq> [] then errorText else resp_statusText r))))
      else lift_io (resp_json r))"

text \<open>A \<open>POST\<close> to the Atlas API with the bearer token of the configuration.\<close>

definition atlas_post ::
  "js_lib \<Rightarrow> jsval \<Rightarrow> jsval \<Rightarrow> string \<Rightarrow> string option \<Rightarrow> fetch_body \<Rightarrow> fetch_request" where
  "atlas_post L atlasBaseUrl atlasApiKey route contentType b =
     \<lparr>rq_url = js_string L atlasBaseUrl @ route, rq_method = ''POST'',
      rq_authorization = ''Bearer '' @ js_string L atlasApiKey,
      rq_content_type = contentType, rq_body = b\<rparr>"

text \<open>The request that \<open>/api/get-upload-url\<close> sends for a request body \<open>body\<close>.\<close>

definition get_upload_url_request :: "js_lib \<Rightarrow> jsval \<Rightarrow> jsval \<Rightarrow> jsval \<Rightarrow> fetch_request" where
  "get_upload_url_request L atlasBaseUrl atlasApiKey body =
     atlas_post L atlasBaseUrl atlasApiKey
       (''/api/v1/servers/'' @ js_string L (member body ''serverId'') @ ''/files/upload/presign'')
       (Some ''application/json'')
       (JsonBody (obj_lit
          [(''path'', member body ''path''),
           (''expirationSeconds'', member_default body ''expirationSeconds'' (JNum 300))]))"



definition get_upload_url ::
  "js_lib \<Rightarrow> route_env \<Rightarrow> config_file \<Rightarrow> manager \<Rightarrow> response act" where
  "get_upload_url L R f m =
     (case req_session R of
        Throws t \<Rightarrow> throw_act t
      | Returns session \<Rightarrow>
          if \<not> truthy session then done_act (text_response 401 ''Unauthorized'')
          else
            catch_act
              (bind_act (lift_io (req_json R)) (\<lambda>body.
               bind_act (lift_io (get_prop L body ''serverId'')) (\<lambda>serverId.
               if \<not> truthy serverId \<or> \<not> truthy (member body ''path'') then
                 done_act (text_response 400 ''Missing serverId or path'')
               else
                 (case atlas_settings L f m of (atlasBaseUrl, atlasApiKey, m') \<Rightarrow>
                  if \<not> truthy atlasBaseUrl \<or> \<not> truthy atlasApiKey then
                    done_act (text_response 500 ''Atlas configuration not found'')
                  else
                    bind_act
                      (attempt (Fetch (get_upload_url_request L atlasBaseUrl atlasApiKey body))
                         (fetch R (get_upload_url_request L atlasBaseUrl atlasApiKey body)))
                      (\<lambda>atlasResponse.
                    bind_act (checked_json atlasResponse) (\<lambda>atlasData.
                    bind_act (lift_io (get_prop L atlasData ''data'')) (\<lambda>data.
                    done_act (json_response 200
                      (obj_lit (own_props data @ [(''atlasBaseUrl'', atlasBaseUrl)]))))))))))
              (\<lambda>error. done_act
                 (text_response 500 (error_message error ''Failed to get upload URL''))))"














section \<open>JavaScript numbers\<close>







section \<open>The chunked upload client (\<open>useServerUploadFileMutation\<close>)\<close>




























section \<open>Example inputs\<close>

text \<open>Concrete libraries, files and environments at which the theorems below are instantiated.\<close>

definition example_lib :: "jsval \<Rightarrow> js_lib" where
  "example_lib doc =
     \<lparr>JSON_parse = (\<lambda>s. if s = ''doc'' then Returns doc else Throws (Error ''Unexpected token'')),
      read_TypeError = (\<lambda>v k. ''Cannot read properties of null''),
      write_TypeError = (\<lambda>v k. ''Cannot create property''),
      ToString = (\<lambda>v. ''[object Object]'')\<rparr>"

definition example_file :: "string \<Rightarrow> config_file" where
  "example_file s = \<lparr>existsSync = True, statSync_mtimeMs = Returns 5, readFileSync = Returns s\<rparr>"

definition example_probe :: probe_env where
  "example_probe =
     \<lparr>select_1 = (\<lambda>i. Returns ()), sql_end = (\<lambda>i. Returns ()),
      fetch_HEAD = (\<lambda>u. Returns 200), atlas_getStatus = (\<lambda>b k. Returns (JObj []))\<rparr>"

definition example_postgres :: postgresConfig_in where
  "example_postgres =
     \<lparr>pg_host = ''db'', pg_port = 5432, pg_database = ''atlas'', pg_username = ''atlas'',
      pg_password = ''pw''\<rparr>"

definition example_oidc_test :: oidc_test_in where
  "example_oidc_test =
     \<lparr>ot_provider = ''custom'', ot_authorizationUrl = ''https://id/auth'',
      ot_tokenUrl = ''https://id/token'', ot_userInfoUrl = ''https://id/me'', ot_clientId = ''web''\<rparr>"

definition example_atlas_test :: atlas_test_in where
  "example_atlas_test = \<lparr>at_baseUrl = ''https://atlas'', at_apiKey = ''key''\<rparr>"

text \<open>
  A setup that has not been saved yet (no config file), and services that are down: the
  database refuses the connection, the token endpoint cannot be fetched, and the Atlas
  client rejects with a value that is not an \<open>Error\<close>.
\<close>

definition fresh_file :: config_file where
  "fresh_file = (example_file ''doc'')\<lparr>existsSync := False\<rparr>"

definition dead_probe :: probe_env where
  "dead_probe =
     \<lparr>select_1 = (\<lambda>i. Throws (Error ''connect ECONNREFUSED 127.0.0.1:5432'')),
      sql_end = (\<lambda>i. Returns ()),
      fetch_HEAD = (\<lambda>u. if u = ''https://id/token'' then Throws (Error ''fetch failed'')
                          else Returns 200),
      atlas_getStatus = (\<lambda>b k. Throws NonError)\<rparr>"

definition completed_doc :: jsval where
  "completed_doc = JObj [(''completedAt'', JStr ''2025-01-01T00:00:00.000Z'')]"

definition admin_auth :: auth_env where
  "admin_auth =
     \<lparr>getSession = Returns (JObj [(''user'', JObj [(''id'', JStr ''u0'')])]),
      listUsers = Returns (JArr []),
      auth_api = (\<lambda>name b. if name = ''removeUser'' then Throws (Error ''User not found'')
                             else Returns (JObj []))\<rparr>"

text \<open>
  The four secret fields of the stored document, in the words of the claim: \<open>without_secrets\<close>
  removes \<open>postgresConfig.password\<close>, \<open>oidcConfig.clientSecret\<close>, \<open>oidcConfig.secret\<close>
  and \<open>atlasConfig.atlasApiKey\<close> and keeps everything else, so two documents differ only in
  those fields when their images are equal.
\<close>

definition without_key :: "string \<Rightarrow> jsval \<Rightarrow> jsval" where
  "without_key k v = (case v of JObj kvs \<Rightarrow> JObj (AList.delete k kvs) | _ \<Rightarrow> v)"

definition strip_section :: "string \<Rightarrow> jsval \<Rightarrow> jsval" where
  "strip_section k v =
     (if k = ''postgresConfig'' then without_key ''password'' v
      else if k = ''oidcConfig'' then without_key ''clientSecret'' (without_key ''secret'' v)
      else if k = ''atlasConfig'' then without_key ''atlasApiKey'' v
      else v)"

definition without_secrets :: "jsval \<Rightarrow> jsval" where
  "without_secrets d =
     (case d of JObj kvs \<Rightarrow> JObj (map (\<lambda>(k, v). (k, strip_section k v)) kvs) | _ \<Rightarrow> d)"

definition example_config :: "string \<Rightarrow> string \<Rightarrow> jsval" where
  "example_config password apiKey =
     JObj [(''postgresConfig'', JObj [(''host'', JStr ''db''), (''password'', JStr password)]),
           (''oidcConfig'', JObj [(''clientId'', JStr ''web''), (''clientSecret'', JStr ''cs''),
                                  (''secret'', JStr ''ss'')]),
           (''atlasConfig'', JObj [(''atlasUrl'', JStr ''https://atlas''),
                                   (''atlasApiKey'', JStr apiKey)]),
           (''brandingConfig'', JObj [(''displayName'', JStr ''Atlas'')]),
           (''completedAt'', JStr ''2025-01-01T00:00:00.000Z''),
           (''version'', JStr ''1.0.0'')]"

definition two_file_lib :: "jsval \<Rightarrow> jsval \<Rightarrow> js_lib" where
  "two_file_lib d1 d2 =
     (example_lib d1)\<lparr>JSON_parse :=
        (\<lambda>s. if s = ''doc'' then Returns d1 else if s = ''doc2'' then Returns d2
             else Throws (Error ''Unexpected token''))\<rparr>"

definition example_response :: "jsval \<Rightarrow> upstream_response" where
  "example_response v =
     \<lparr>resp_ok = True, resp_statusText = ''OK'', resp_text = Returns [], resp_json = Returns v\<rparr>"

definition example_route :: route_env where
  "example_route =
     \<lparr>req_session = Returns (JObj [(''user'', JObj [(''id'', JStr ''u0'')])]),
      req_json = Returns (JObj [(''serverId'', JStr ''s1''), (''path'', JStr ''/world/level.dat'')]),
      req_path_param = Some ''plugins/a.jar'',
      fetch = (\<lambda>rq. Returns (example_response
                 (JObj [(''data'', JObj [(''uploadPath'', JStr ''/api/v1/upload/abc''),
                                         (''token'', JStr ''tok'')])]))),
      logAction = (\<lambda>a. Returns ())\<rparr>"

definition example_manager :: manager where
  "example_manager = \<lparr>cache = example_config ''pw'' ''key'', cacheTimestamp = 5\<rparr>"





definition example_env :: server_env where
  "example_env =
     \<lparr>dir_exists = False, mkdirSync = Returns (), writeFileSync = Returns (),
      reconnectDatabase = Returns (), migrate = Returns (),
      BETTER_AUTH_SECRET = None, randomBytes_base64 = ''cmFuZG9tIGJ5dGVz'',
      now_ISOString = ''2025-01-01T00:00:00.000Z'', package_version = ''1.0.0''\<rparr>"

definition example_oidc :: oidcConfig_in where
  "example_oidc =
     \<lparr>oidc_provider = ''custom'', oidc_providerName = ''Identity'', oidc_clientId = ''web'',
      oidc_clientSecret = ''cs'', oidc_authorizationUrl = ''https://id/auth'',
      oidc_tokenUrl = ''https://id/token'', oidc_userInfoUrl = ''https://id/me''\<rparr>"

definition example_atlas :: atlasConfig_in where
  "example_atlas =
     \<lparr>atlas_baseUrl = ''https://panel'', atlas_atlasUrl = ''https://atlas:9090'',
      atlas_atlasApiKey = ''key''\<rparr>"

definition example_branding :: brandingConfig_in where
  "example_branding =
     \<lparr>brand_displayName = ''Atlas'', brand_logo = Missing, brand_primaryColor = ''#FF6A3D'',
      brand_backgroundImage = Given ''bg.png''\<rparr>"

definition example_setup :: setup_input where
  "example_setup =
     \<lparr>in_postgresConfig = example_postgres, in_oidcConfig = example_oidc,
      in_atlasConfig = example_atlas, in_brandingConfig = example_branding\<rparr>"

definition stored_config :: jsval where
  "stored_config =
     JObj [(''postgresConfig'', JObj [(''host'', JStr ''old-db''), (''password'', JStr ''pw''),
                                      (''ssl'', JBool True)]),
           (''oidcConfig'', JObj [(''clientId'', JStr ''old''), (''secret'', JStr ''ss'')]),
           (''atlasConfig'', JObj [(''atlasUrl'', JStr ''http://old''),
                                   (''websocketUrl'', JStr ''ws://old''),
                                   (''timeout'', JNum 30)]),
           (''brandingConfig'', JObj [(''displayName'', JStr ''Old''), (''favicon'', JStr ''f.ico'')]),
           (''completedAt'', JStr ''2025-01-01T00:00:00.000Z''),
           (''version'', JStr ''1.0.0'')]"

definition example_auth_update :: authConfig_update where
  "example_auth_update = \<lparr>au_oidc = example_oidc, au_scopes = Given [''openid'']\<rparr>"

definition example_branding_update :: brandingConfig_update where
  "example_branding_update =
     \<lparr>bu_displayName = ''Atlas'', bu_logo = Given ''logo.png'', bu_favicon = Missing,
      bu_primaryColor = ''#FF6A3D'', bu_backgroundImage = Undef\<rparr>"









section \<open>Facts about JavaScript values\<close>

lemma own_props_simps [simp]:
  "own_props JUndefined = []" "own_props JNull = []"
  "own_props (JBool b) = []" "own_props (JNum n) = []"
  by (simp_all add: own_props_def)

lemma map_of_own_props_JObj [simp]: "map_of (own_props (JObj kvs)) = map_of kvs"
  by (simp add: own_props_def map_of_clearjunk)

lemma keys_own_props_JObj [simp]: "fst ` set (own_props (JObj kvs)) = fst ` set kvs"
  using clearjunk_keys_set [of kvs] by (simp add: own_props_def)

lemma own_props_JObj_distinct: "distinct (map fst kvs) \<Longrightarrow> own_props (JObj kvs) = kvs"
  by (simp add: own_props_def)

lemma distinct_own_props [simp]: "distinct (map fst (own_props v))"
  by (simp add: own_props_def)

lemma member_JObj:
  "member (JObj kvs) k = (case map_of kvs k of Some x \<Rightarrow> x | None \<Rightarrow> JUndefined)"
  by (simp add: member_def split: option.splits)

lemma member_nullish [simp]: "member JUndefined k = JUndefined" "member JNull k = JUndefined"
  by (simp_all add: member_def)

section \<open>Hot reload and cache invalidation\<close>

text \<open>
  C2. \<open>getConfig\<close> returns \<open>null\<close> when the file does not exist; returns the cached copy
  without reading the file when a cached copy is present and the file's mtime is not newer
  than the cached timestamp; otherwise reads and parses the file and stores the result and
  the mtime; \<open>invalidateCache\<close> resets both fields, and the next call then reads the file
  whatever its mtime; and
  every failing \<open>statSync\<close>, \<open>readFileSync\<close> or \<open>JSON.parse\<close> gives \<open>null\<close>.
\<close>

theorem getConfig_hot_reload:
  "(\<not> existsSync f \<longrightarrow> fst (getConfig L f m) = JNull)
   \<and> (existsSync f \<and> statSync_mtimeMs f = Returns t \<and> truthy (cache m) \<and> t \<le> cacheTimestamp m
        \<longrightarrow> fst (getConfig L f m) = cache m \<and> fst (snd (getConfig L f m)) = m
            \<and> ReadFileSync \<notin> set (snd (snd (getConfig L f m))))
   \<and> (existsSync f \<and> statSync_mtimeMs f = Returns t \<and> \<not> (truthy (cache m) \<and> t \<le> cacheTimestamp m)
        \<and> readFileSync f = Returns s \<and> JSON_parse L s = Returns c
        \<longrightarrow> fst (getConfig L f m) = c
            \<and> cache (fst (snd (getConfig L f m))) = c
            \<and> cacheTimestamp (fst (snd (getConfig L f m))) = t
            \<and> ReadFileSync \<in> set (snd (snd (getConfig L f m))))
   \<and> cache (invalidateCache m) = JNull \<and> cacheTimestamp (invalidateCache m) = 0
   \<and> (existsSync f \<and> statSync_mtimeMs f = Returns t
        \<longrightarrow> ReadFileSync \<in> set (snd (snd (getConfig L f (invalidateCache m))))
            \<and> (readFileSync f = Returns s \<and> JSON_parse L s = Returns c
                 \<longrightarrow> fst (getConfig L f (invalidateCache m)) = c))
   \<and> (existsSync f \<and> (statSync_mtimeMs f = Throws e
          \<or> statSync_mtimeMs f = Returns t \<and> \<not> (truthy (cache m) \<and> t \<le> cacheTimestamp m)
             \<and> (readFileSync f = Throws e \<or> readFileSync f = Returns s \<and> JSON_parse L s = Throws e))
        \<longrightarrow> fst (getConfig L f m) = JNull \<and> fst (snd (getConfig L f m)) = m)"
  by (auto simp: getConfig_def loadConfig_def invalidateCache_def split: io.splits)

text \<open>The five cases at a missing file, a fresh cache, a stale cache, an invalidated cache and a file that does not parse.\<close>

theorem getConfig_hot_reload_witness:
  "fst (getConfig (example_lib (JObj [])) ((example_file ''doc'')\<lparr>existsSync := False\<rparr>) new_manager) = JNull
   \<and> fst (getConfig (example_lib (JObj [])) (example_file ''doc'')
            \<lparr>cache = JObj [(''version'', JStr ''1'')], cacheTimestamp = 5\<rparr>)
       = JObj [(''version'', JStr ''1'')]
   \<and> fst (getConfig (example_lib (JObj [])) (example_file ''doc'')
            \<lparr>cache = JObj [(''version'', JStr ''1'')], cacheTimestamp = 4\<rparr>) = JObj []
   \<and> fst (getConfig (example_lib (JObj [])) (example_file ''doc'')
            (invalidateCache \<lparr>cache = JObj [(''version'', JStr ''1'')], cacheTimestamp = 5\<rparr>)) = JObj []
   \<and> fst (getConfig (example_lib (JObj [])) (example_file ''{'') new_manager) = JNull"
  using
    getConfig_hot_reload [where L = "example_lib (JObj [])" and m = new_manager
      and f = "(example_file ''doc'')\<lparr>existsSync := False\<rparr>"]
    getConfig_hot_reload [where L = "example_lib (JObj [])" and f = "example_file ''doc''"
      and m = "\<lparr>cache = JObj [(''version'', JStr ''1'')], cacheTimestamp = 5\<rparr>"
      and t = 5 and s = "''doc''" and c = "JObj []"]
    getConfig_hot_reload [where L = "example_lib (JObj [])" and f = "example_file ''doc''"
      and m = "\<lparr>cache = JObj [(''version'', JStr ''1'')], cacheTimestamp = 4\<rparr>"
      and t = 5 and s = "''doc''" and c = "JObj []"]
    getConfig_hot_reload [where L = "example_lib (JObj [])" and f = "example_file ''{''"
      and m = new_manager and t = 5 and s = "''{''" and e = "Error ''Unexpected token''"]
  by (simp add: example_lib_def example_file_def new_manager_def)

section \<open>The setup test handlers\<close>

lemma obj_lit2 [simp]:
  "k1 \<noteq> k2 \<Longrightarrow> obj_lit [(k1, v1), (k2, v2)] = JObj [(k1, v1), (k2, v2)]"
  by (simp add: obj_lit_def obj_entries_def)

lemma failure_result_eq:
  "failure_result error dflt =
     JObj [(''success'', JBool False), (''message'', JStr (error_message error dflt))]"
  by (simp add: failure_result_def)

lemma completed_check_forbidden:
  "existsSync f \<Longrightarrow> readFileSync f = Returns s \<Longrightarrow> JSON_parse L s = Returns config \<Longrightarrow>
   truthy (member config ''completedAt'') \<Longrightarrow>
   completed_check L f msg = Throws (ORPCError FORBIDDEN msg)"
  by (auto simp: completed_check_def then_io_def get_prop_def nullish_def)

lemma unreachable_urls:
  "map fst (filter (\<lambda>r. \<not> snd r) (map (\<lambda>url. (url, P url)) urls)) = filter (\<lambda>url. \<not> P url) urls"
  by (induction urls) simp_all

text \<open>
  C8. \<open>testPostgresConnection\<close>, \<open>testOidcConnection\<close> and \<open>testAtlasConnection\<close> never
  throw, and every failure is answered with \<open>{success: false, message}\<close>: whatever the
  opening check throws (the \<open>FORBIDDEN\<close> error of a completed setup, a read error, a parse
  error, a \<open>TypeError\<close> on a \<open>null\<close> document), and whatever the probe throws (the query or
  the closing of the database connection, the Atlas status call), the handler returns
  \<open>success: false\<close> with the message of that error, or with the handler's default text
  when the thrown value is not an \<open>Error\<close>. A \<open>HEAD\<close> request that throws or answers
  with a status of 500 or more makes its URL unreachable, and the OIDC handler returns
  \<open>success: false\<close> with the list of the unreachable URLs. Only when nothing fails does a
  handler return \<open>success: true\<close>. When the stored file has a truthy \<open>completedAt\<close>,
  each handler returns \<open>success: false\<close> with the message of the \<open>FORBIDDEN\<close> error it
  built.
\<close>

theorem setup_test_handlers_never_throw:
  "(\<exists>r. testPostgresConnection L f p i = Returns r)
   \<and> (\<exists>r. testOidcConnection L f p j = Returns r)
   \<and> (\<exists>r. testAtlasConnection L f p k = Returns r)
   \<and> (completed_check L f ''Setup has already been completed. Cannot test database connection.''
          = Throws e
        \<or> completed_check L f ''Setup has already been completed. Cannot test database connection.''
             = Returns ()
           \<and> (select_1 p i = Throws e \<or> select_1 p i = Returns () \<and> sql_end p i = Throws e)
      \<longrightarrow> testPostgresConnection L f p i
            = Returns (JObj [(''success'', JBool False),
                             (''message'', JStr (error_message e ''Unknown database error''))]))
   \<and> (completed_check L f ''Setup has already been completed. Cannot test database connection.''
          = Returns ()
        \<and> select_1 p i = Returns () \<and> sql_end p i = Returns ()
      \<longrightarrow> testPostgresConnection L f p i
            = Returns (JObj [(''success'', JBool True),
                             (''message'', JStr ''Database connection successful'')]))
   \<and> (completed_check L f ''Setup has already been completed. Cannot test OIDC connection.''
          = Throws e
      \<longrightarrow> testOidcConnection L f p j
            = Returns (JObj [(''success'', JBool False),
                             (''message'', JStr (error_message e ''Unknown OIDC validation error''))]))
   \<and> (completed_check L f ''Setup has already been completed. Cannot test OIDC connection.''
          = Returns ()
      \<longrightarrow> testOidcConnection L f p j
            = Returns
                (if filter (\<lambda>url. \<not> url_reachable p url)
                      [ot_authorizationUrl j, ot_tokenUrl j, ot_userInfoUrl j] = []
                 then JObj [(''success'', JBool True),
                            (''message'', JStr ''OIDC configuration validated successfully'')]
                 else JObj [(''success'', JBool False),
                            (''message'', JStr (''Unable to reach: ''
                               @ join '', '' (filter (\<lambda>url. \<not> url_reachable p url)
                                   [ot_authorizationUrl j, ot_tokenUrl j, ot_userInfoUrl j])))]))
   \<and> (url_reachable p url
        \<longleftrightarrow> (\<exists>status. fetch_HEAD p url = Returns status \<and> status < 500))
   \<and> (completed_check L f ''Setup has already been completed. Cannot test Atlas connection.''
          = Throws e
        \<or> completed_check L f ''Setup has already been completed. Cannot test Atlas connection.''
             = Returns ()
           \<and> atlas_getStatus p (at_baseUrl k) (at_apiKey k) = Throws e
      \<longrightarrow> testAtlasConnection L f p k
            = Returns (JObj [(''success'', JBool False),
                             (''message'', JStr (error_message e ''Unknown Atlas API error''))]))
   \<and> (completed_check L f ''Setup has already been completed. Cannot test Atlas connection.''
          = Returns ()
        \<and> atlas_getStatus p (at_baseUrl k) (at_apiKey k) = Returns status
      \<longrightarrow> testAtlasConnection L f p k
            = Returns (JObj [(''success'', JBool True),
                             (''message'', JStr ''Atlas API connection successful''),
                             (''data'', status)]))
   \<and> (existsSync f \<and> readFileSync f = Returns s \<and> JSON_parse L s = Returns config
        \<and> truthy (member config ''completedAt'')
      \<longrightarrow> completed_check L f msg = Throws (ORPCError FORBIDDEN msg)
        \<and> testPostgresConnection L f p i
            = Returns (JObj [(''success'', JBool False), (''message'', JStr
                ''Setup has already been completed. Cannot test database connection.'')])
        \<and> testOidcConnection L f p j
            = Returns (JObj [(''success'', JBool False), (''message'', JStr
                ''Setup has already been completed. Cannot test OIDC connection.'')])
        \<and> testAtlasConnection L f p k
            = Returns (JObj [(''success'', JBool False), (''message'', JStr
                ''Setup has already been completed. Cannot test Atlas connection.'')]))
   \<and> (existsSync f
        \<and> (readFileSync f = Throws e
             \<or> readFileSync f = Returns s
                \<and> (JSON_parse L s = Throws e
                     \<or> JSON_parse L s = Returns config \<and> nullish config
                        \<and> e = Error (read_TypeError L config ''completedAt'')))
      \<longrightarrow> completed_check L f msg = Throws e)
   \<and> (\<not> existsSync f
        \<or> readFileSync f = Returns s \<and> JSON_parse L s = Returns config \<and> \<not> nullish config
           \<and> \<not> truthy (member config ''completedAt'')
      \<longrightarrow> completed_check L f msg = Returns ())"
proof (intro conjI impI)
  show "\<exists>r. testPostgresConnection L f p i = Returns r"
    by (auto simp: testPostgresConnection_def split: io.splits)
  show "\<exists>r. testOidcConnection L f p j = Returns r"
    by (auto simp: testOidcConnection_def split: io.splits)
  show "\<exists>r. testAtlasConnection L f p k = Returns r"
    by (auto simp: testAtlasConnection_def split: io.splits)
next
  assume "completed_check L f ''Setup has already been completed. Cannot test database connection.''
          = Throws e
        \<or> completed_check L f ''Setup has already been completed. Cannot test database connection.''
             = Returns ()
           \<and> (select_1 p i = Throws e \<or> select_1 p i = Returns () \<and> sql_end p i = Throws e)"
  then show "testPostgresConnection L f p i
            = Returns (JObj [(''success'', JBool False),
                             (''message'', JStr (error_message e ''Unknown database error''))])"
    by (auto simp: testPostgresConnection_def then_io_def failure_result_eq)
next
  assume "completed_check L f ''Setup has already been completed. Cannot test database connection.''
          = Returns ()
        \<and> select_1 p i = Returns () \<and> sql_end p i = Returns ()"
  then show "testPostgresConnection L f p i
            = Returns (JObj [(''success'', JBool True),
                             (''message'', JStr ''Database connection successful'')])"
    by (simp add: testPostgresConnection_def then_io_def)
next
  assume "completed_check L f ''Setup has already been completed. Cannot test OIDC connection.''
          = Throws e"
  then show "testOidcConnection L f p j
            = Returns (JObj [(''success'', JBool False),
                             (''message'', JStr (error_message e ''Unknown OIDC validation error''))])"
    by (simp add: testOidcConnection_def then_io_def failure_result_eq)
next
  assume "completed_check L f ''Setup has already been completed. Cannot test OIDC connection.''
          = Returns ()"
  then show "testOidcConnection L f p j
            = Returns
                (if filter (\<lambda>url. \<not> url_reachable p url)
                      [ot_authorizationUrl j, ot_tokenUrl j, ot_userInfoUrl j] = []
                 then JObj [(''success'', JBool True),
                            (''message'', JStr ''OIDC configuration validated successfully'')]
                 else JObj [(''success'', JBool False),
                            (''message'', JStr (''Unable to reach: ''
                               @ join '', '' (filter (\<lambda>url. \<not> url_reachable p url)
                                   [ot_authorizationUrl j, ot_tokenUrl j, ot_userInfoUrl j])))])"
    unfolding testOidcConnection_def Let_def unreachable_urls
    by (simp add: then_io_def)
next
  show "url_reachable p url
        \<longleftrightarrow> (\<exists>status. fetch_HEAD p url = Returns status \<and> status < 500)"
    by (auto simp: url_reachable_def split: io.splits)
next
  assume "completed_check L f ''Setup has already been completed. Cannot test Atlas connection.''
          = Throws e
        \<or> completed_check L f ''Setup has already been completed. Cannot test Atlas connection.''
             = Returns ()
           \<and> atlas_getStatus p (at_baseUrl k) (at_apiKey k) = Throws e"
  then show "testAtlasConnection L f p k
            = Returns (JObj [(''success'', JBool False),
                             (''message'', JStr (error_message e ''Unknown Atlas API error''))])"
    by (auto simp: testAtlasConnection_def then_io_def failure_result_eq)
next
  assume "completed_check L f ''Setup has already been completed. Cannot test Atlas connection.''
          = Returns ()
        \<and> atlas_getStatus p (at_baseUrl k) (at_apiKey k) = Returns status"
  then show "testAtlasConnection L f p k
            = Returns (JObj [(''success'', JBool True),
                             (''message'', JStr ''Atlas API connection successful''),
                             (''data'', status)])"
    by (simp add: testAtlasConnection_def then_io_def obj_lit_def obj_entries_def)
next
  assume h: "existsSync f \<and> readFileSync f = Returns s \<and> JSON_parse L s = Returns config
        \<and> truthy (member config ''completedAt'')"
  then have c: "\<And>msg. completed_check L f msg = Throws (ORPCError FORBIDDEN msg)"
    by (simp add: completed_check_forbidden)
  show "completed_check L f msg = Throws (ORPCError FORBIDDEN msg)"
    by (rule c)
  show "testPostgresConnection L f p i
            = Returns (JObj [(''success'', JBool False), (''message'', JStr
                ''Setup has already been completed. Cannot test database connection.'')])"
    by (simp add: testPostgresConnection_def c then_io_def failure_result_eq)
  show "testOidcConnection L f p j
            = Returns (JObj [(''success'', JBool False), (''message'', JStr
                ''Setup has already been completed. Cannot test OIDC connection.'')])"
    by (simp add: testOidcConnection_def c then_io_def failure_result_eq)
  show "testAtlasConnection L f p k
            = Returns (JObj [(''success'', JBool False), (''message'', JStr
                ''Setup has already been completed. Cannot test Atlas connection.'')])"
    by (simp add: testAtlasConnection_def c then_io_def failure_result_eq)
next
  assume "existsSync f
        \<and> (readFileSync f = Throws e
             \<or> readFileSync f = Returns s
                \<and> (JSON_parse L s = Throws e
                     \<or> JSON_parse L s = Returns config \<and> nullish config
                        \<and> e = Error (read_TypeError L config ''completedAt'')))"
  then show "completed_check L f msg = Throws e"
    by (auto simp: completed_check_def then_io_def get_prop_def)
next
  assume "\<not> existsSync f
        \<or> readFileSync f = Returns s \<and> JSON_parse L s = Returns config \<and> \<not> nullish config
           \<and> \<not> truthy (member config ''completedAt'')"
  then show "completed_check L f msg = Returns ()"
    by (auto simp: completed_check_def then_io_def get_prop_def)
qed

text \<open>
  The three handlers on a completed setup whose database, provider and Atlas all answer,
  and on a fresh setup whose database, token endpoint and Atlas are down.
\<close>

theorem setup_test_handlers_never_throw_witness:
  "testPostgresConnection (example_lib completed_doc) (example_file ''doc'') example_probe
       example_postgres
     = Returns (JObj [(''success'', JBool False), (''message'', JStr
         ''Setup has already been completed. Cannot test database connection.'')])
   \<and> testOidcConnection (example_lib completed_doc) (example_file ''doc'') example_probe
       example_oidc_test
     = Returns (JObj [(''success'', JBool False), (''message'', JStr
         ''Setup has already been completed. Cannot test OIDC connection.'')])
   \<and> testAtlasConnection (example_lib completed_doc) (example_file ''doc'') example_probe
       example_atlas_test
     = Returns (JObj [(''success'', JBool False), (''message'', JStr
         ''Setup has already been completed. Cannot test Atlas connection.'')])
   \<and> testPostgresConnection (example_lib completed_doc) fresh_file dead_probe example_postgres
     = Returns (JObj [(''success'', JBool False),
                      (''message'', JStr ''connect ECONNREFUSED 127.0.0.1:5432'')])
   \<and> testOidcConnection (example_lib completed_doc) fresh_file dead_probe example_oidc_test
     = Returns (JObj [(''success'', JBool False),
                      (''message'', JStr ''Unable to reach: https://id/token'')])
   \<and> testAtlasConnection (example_lib completed_doc) fresh_file dead_probe example_atlas_test
     = Returns (JObj [(''success'', JBool False),
                      (''message'', JStr ''Unknown Atlas API error'')])"
proof -
  note comp = setup_test_handlers_never_throw [where L = "example_lib completed_doc"
      and f = "example_file ''doc''" and s = "''doc''" and config = completed_doc
      and p = example_probe and i = example_postgres and j = example_oidc_test
      and k = example_atlas_test]
  have fresh: "completed_check (example_lib completed_doc) fresh_file msg = Returns ()" for msg
    using setup_test_handlers_never_throw [where L = "example_lib completed_doc"
      and f = fresh_file and msg = msg]
    by (simp add: fresh_file_def)
  note pg = setup_test_handlers_never_throw [where L = "example_lib completed_doc"
      and f = fresh_file and p = dead_probe and i = example_postgres
      and e = "Error ''connect ECONNREFUSED 127.0.0.1:5432''"]
  note oidc = setup_test_handlers_never_throw [where L = "example_lib completed_doc"
      and f = fresh_file and p = dead_probe and j = example_oidc_test]
  note atlas = setup_test_handlers_never_throw [where L = "example_lib completed_doc"
      and f = fresh_file and p = dead_probe and k = example_atlas_test and e = NonError]
  have r: "url_reachable dead_probe ''https://id/auth''"
    "\<not> url_reachable dead_probe ''https://id/token''"
    "url_reachable dead_probe ''https://id/me''"
    by (simp_all add: url_reachable_def dead_probe_def)
  from comp have a: "testPostgresConnection (example_lib completed_doc) (example_file ''doc'')
        example_probe example_postgres
     = Returns (JObj [(''success'', JBool False), (''message'', JStr
         ''Setup has already been completed. Cannot test database connection.'')])
   \<and> testOidcConnection (example_lib completed_doc) (example_file ''doc'') example_probe
       example_oidc_test
     = Returns (JObj [(''success'', JBool False), (''message'', JStr
         ''Setup has already been completed. Cannot test OIDC connection.'')])
   \<and> testAtlasConnection (example_lib completed_doc) (example_file ''doc'') example_probe
       example_atlas_test
     = Returns (JObj [(''success'', JBool False), (''message'', JStr
         ''Setup has already been completed. Cannot test Atlas connection.'')])"
    by (simp add: example_lib_def example_file_def completed_doc_def member_JObj)
  from pg have b: "testPostgresConnection (example_lib completed_doc) fresh_file dead_probe
        example_postgres
     = Returns (JObj [(''success'', JBool False),
                      (''message'', JStr ''connect ECONNREFUSED 127.0.0.1:5432'')])"
    by (simp add: fresh dead_probe_def)
  from oidc have c: "testOidcConnection (example_lib completed_doc) fresh_file dead_probe
        example_oidc_test
     = Returns (JObj [(''success'', JBool False),
                      (''message'', JStr ''Unable to reach: https://id/token'')])"
    by (simp add: fresh r example_oidc_test_def)
  from atlas have d: "testAtlasConnection (example_lib completed_doc) fresh_file dead_probe
        example_atlas_test
     = Returns (JObj [(''success'', JBool False),
                      (''message'', JStr ''Unknown Atlas API error'')])"
    by (simp add: fresh dead_probe_def)
  from a b c d show ?thesis by blast
qed

section \<open>User management\<close>

lemma user_operation_unauthorized:
  "getSession A = Returns session \<Longrightarrow> \<not> truthy (opt_prop session ''user'') \<Longrightarrow>
   user_operation A name b ok pre = (Throws (ORPCError UNAUTHORIZED ''Authentication required''), [])"
  by (simp add: user_operation_def requireAdmin_def throw_act_def)

lemma user_operation_forbidden:
  "getSession A = Returns session \<Longrightarrow> truthy (opt_prop session ''user'') \<Longrightarrow>
   listUsers A = Throws t \<Longrightarrow>
   user_operation A name b ok pre = (Throws (ORPCError FORBIDDEN ''Admin role required''), [])"
  by (simp add: user_operation_def requireAdmin_def throw_act_def)

lemma user_operation_admin:
  "getSession A = Returns session \<Longrightarrow> truthy (opt_prop session ''user'') \<Longrightarrow>
   listUsers A = Returns users \<Longrightarrow>
   user_operation A name b ok pre =
     (case auth_api A name b of
        Returns r \<Rightarrow>
          (Returns (JObj [(''success'', JBool True), (''message'', JStr ok)]), [AuthApi name b])
      | Throws error \<Rightarrow>
          (Throws (ORPCError INTERNAL_ERROR (pre @ error_message error ''Unknown error'')), []))"
  by (simp add: user_operation_def requireAdmin_def throw_act_def catch_act_def bind_act_def
      call_def done_act_def split: io.splits)

text \<open>
  C6. \<open>updateUserRole\<close>, \<open>banUser\<close>, \<open>unbanUser\<close> and \<open>deleteUser\<close> throw
  \<open>UNAUTHORIZED\<close> when the session has no user and \<open>FORBIDDEN\<close> when the admin-only
  \<open>listUsers\<close> call is refused, in both cases without calling the authentication
  service for the change. For an admin, each makes its one call with the body built from
  the input; when the call returns, the result is \<open>success: true\<close> with the operation's
  message; when it throws, the operation throws \<open>INTERNAL_ERROR\<close> whose message is the
  operation's prefix followed by the error's message (by \<open>Unknown error\<close> for a thrown
  value that is not an \<open>Error\<close>), and nothing is returned.
\<close>

theorem user_management_gated:
  "(getSession A = Returns session \<and> \<not> truthy (opt_prop session ''user'')
      \<longrightarrow> updateUserRole A userId role = (Throws (ORPCError UNAUTHORIZED ''Authentication required''), [])
        \<and> banUser A userId reason expiresAt = (Throws (ORPCError UNAUTHORIZED ''Authentication required''), [])
        \<and> unbanUser A userId = (Throws (ORPCError UNAUTHORIZED ''Authentication required''), [])
        \<and> deleteUser A userId = (Throws (ORPCError UNAUTHORIZED ''Authentication required''), []))
   \<and> (getSession A = Returns session \<and> truthy (opt_prop session ''user'')
        \<and> listUsers A = Throws t
      \<longrightarrow> updateUserRole A userId role = (Throws (ORPCError FORBIDDEN ''Admin role required''), [])
        \<and> banUser A userId reason expiresAt = (Throws (ORPCError FORBIDDEN ''Admin role required''), [])
        \<and> unbanUser A userId = (Throws (ORPCError FORBIDDEN ''Admin role required''), [])
        \<and> deleteUser A userId = (Throws (ORPCError FORBIDDEN ''Admin role required''), []))
   \<and> (getSession A = Returns session \<and> truthy (opt_prop session ''user'')
        \<and> listUsers A = Returns users
      \<longrightarrow> (let body = obj_lit [(''userId'', JStr userId), (''role'', JStr role)]
        in updateUserRole A userId role =
           (case auth_api A ''setRole'' body of
              Returns r \<Rightarrow>
                (Returns (JObj [(''success'', JBool True), (''message'', JStr ''User role updated successfully'')]),
                 [AuthApi ''setRole'' body])
            | Throws error \<Rightarrow>
                (Throws (ORPCError INTERNAL_ERROR
                   (''Failed to update user role: '' @ error_message error ''Unknown error'')), [])))
        \<and> (let body = obj_lit [(''userId'', JStr userId), (''reason'', optional_value JStr reason),
              (''expiresAt'', optional_value JStr expiresAt)]
        in banUser A userId reason expiresAt =
           (case auth_api A ''banUser'' body of
              Returns r \<Rightarrow>
                (Returns (JObj [(''success'', JBool True), (''message'', JStr ''User banned successfully'')]),
                 [AuthApi ''banUser'' body])
            | Throws error \<Rightarrow>
                (Throws (ORPCError INTERNAL_ERROR
                   (''Failed to ban user: '' @ error_message error ''Unknown error'')), [])))
        \<and> (let body = obj_lit [(''userId'', JStr userId)]
        in unbanUser A userId =
           (case auth_api A ''unbanUser'' body of
              Returns r \<Rightarrow>
                (Returns (JObj [(''success'', JBool True), (''message'', JStr ''User unbanned successfully'')]),
                 [AuthApi ''unbanUser'' body])
            | Throws error \<Rightarrow>
                (Throws (ORPCError INTERNAL_ERROR
                   (''Failed to unban user: '' @ error_message error ''Unknown error'')), [])))
        \<and> (let body = obj_lit [(''userId'', JStr userId)]
        in deleteUser A userId =
           (case auth_api A ''removeUser'' body of
              Returns r \<Rightarrow>
                (Returns (JObj [(''success'', JBool True), (''message'', JStr ''User deleted successfully'')]),
                 [AuthApi ''removeUser'' body])
            | Throws error \<Rightarrow>
                (Throws (ORPCError INTERNAL_ERROR
                   (''Failed to delete user: '' @ error_message error ''Unknown error'')), []))))"
  by (simp add: updateUserRole_def banUser_def unbanUser_def deleteUser_def
      user_operation_unauthorized user_operation_forbidden user_operation_admin Let_def)

text \<open>
  A request without a session, a signed-in user who is not an admin, and an admin whose
  \<open>unbanUser\<close> call returns and whose \<open>removeUser\<close> call throws.
\<close>

theorem user_management_gated_witness:
  "updateUserRole (admin_auth\<lparr>getSession := Returns JNull\<rparr>) ''u1'' ''admin''
     = (Throws (ORPCError UNAUTHORIZED ''Authentication required''), [])
   \<and> banUser (admin_auth\<lparr>listUsers := Throws (Error ''no access'')\<rparr>) ''u1'' Missing Missing
     = (Throws (ORPCError FORBIDDEN ''Admin role required''), [])
   \<and> unbanUser admin_auth ''u1''
     = (Returns (JObj [(''success'', JBool True), (''message'', JStr ''User unbanned successfully'')]),
        [AuthApi ''unbanUser'' (JObj [(''userId'', JStr ''u1'')])])
   \<and> deleteUser admin_auth ''u1''
     = (Throws (ORPCError INTERNAL_ERROR ''Failed to delete user: User not found''), [])"
  using
    user_management_gated [where A = "admin_auth\<lparr>getSession := Returns JNull\<rparr>"
      and session = JNull and userId = "''u1''" and role = "''admin''"]
    user_management_gated [where A = "admin_auth\<lparr>listUsers := Throws (Error ''no access'')\<rparr>"
      and session = "JObj [(''user'', JObj [(''id'', JStr ''u0'')])]" and t = "Error ''no access''"
      and userId = "''u1''" and reason = Missing and expiresAt = Missing]
    user_management_gated [where A = admin_auth
      and session = "JObj [(''user'', JObj [(''id'', JStr ''u0'')])]" and users = "JArr []"
      and userId = "''u1''"]
  by (simp add: admin_auth_def opt_prop_def nullish_def member_JObj obj_lit_def obj_entries_def)

section \<open>The admin view of the configuration\<close>

lemma map_of_strip:
  "map_of (map (\<lambda>(k, v). (k, g k v)) kvs) k = map_option (g k) (map_of kvs k)"
  by (induction kvs) auto

lemma strip_section_undefined: "strip_section k JUndefined = JUndefined"
  by (simp add: strip_section_def without_key_def)

lemma member_without_secrets:
  "k \<noteq> ''length'' \<Longrightarrow>
   member (without_secrets (JObj kvs)) k = strip_section k (member (JObj kvs) k)"
  by (simp add: without_secrets_def member_JObj map_of_strip strip_section_undefined
      split: option.splits)

lemma opt_prop_without_key:
  assumes "k' \<noteq> k"
  shows "opt_prop (without_key k v) k' = opt_prop v k'"
proof (cases v)
  case (JObj kvs)
  with assms show ?thesis
    by (simp add: without_key_def opt_prop_def nullish_def member_JObj delete_conv)
qed (simp_all add: without_key_def)

lemma getConfig_response_without_secrets:
  "getConfig_response (without_secrets d) = getConfig_response d"
proof (cases d)
  case (JObj kvs)
  have pg: "member (without_secrets (JObj kvs)) ''postgresConfig''
      = without_key ''password'' (member (JObj kvs) ''postgresConfig'')"
    by (simp add: member_without_secrets strip_section_def)
  have oidc: "member (without_secrets (JObj kvs)) ''oidcConfig''
      = without_key ''clientSecret'' (without_key ''secret'' (member (JObj kvs) ''oidcConfig''))"
    by (simp add: member_without_secrets strip_section_def)
  have atlas: "member (without_secrets (JObj kvs)) ''atlasConfig''
      = without_key ''atlasApiKey'' (member (JObj kvs) ''atlasConfig'')"
    by (simp add: member_without_secrets strip_section_def)
  have brand: "member (without_secrets (JObj kvs)) ''brandingConfig''
      = member (JObj kvs) ''brandingConfig''"
    by (simp add: member_without_secrets strip_section_def)
  show ?thesis
    unfolding JObj getConfig_response_def pg oidc atlas brand
    by (simp add: opt_prop_without_key)
qed (simp_all add: without_secrets_def)

lemma nullish_without_secrets: "nullish (without_secrets d) = nullish d"
  by (cases d) (auto simp: without_secrets_def nullish_def)

lemma without_secrets_null: "without_secrets d = JNull \<longleftrightarrow> d = JNull"
  by (cases d) (auto simp: without_secrets_def)

lemma without_secrets_undefined: "without_secrets d = JUndefined \<longleftrightarrow> d = JUndefined"
  by (cases d) (auto simp: without_secrets_def)

lemma obj_lit4:
  "distinct [k1, k2, k3, k4] \<Longrightarrow>
   obj_lit [(k1, v1), (k2, v2), (k3, v3), (k4, v4)] = JObj [(k1, v1), (k2, v2), (k3, v3), (k4, v4)]"
  by (simp add: obj_lit_def obj_entries_def)

lemma getConfig_response_keys:
  "fst ` set (own_props (member (getConfig_response config) ''postgresConfig''))
     = {''host'', ''port'', ''database'', ''username''}
   \<and> fst ` set (own_props (member (getConfig_response config) ''oidcConfig''))
     = {''provider'', ''providerName'', ''clientId'', ''authorizationUrl'', ''tokenUrl'',
        ''userInfoUrl'', ''scopes''}
   \<and> fst ` set (own_props (member (getConfig_response config) ''atlasConfig''))
     = {''baseUrl'', ''atlasUrl'', ''websocketUrl''}"
  by (simp add: getConfig_response_def obj_lit_def obj_entries_def member_JObj insert_commute)

lemma admin_getConfig_returns:
  "admin_getConfig L A f = Returns r \<Longrightarrow> \<exists>config. r = getConfig_response config"
  by (auto simp: admin_getConfig_def then_io_def split: io.splits if_splits)

lemma admin_getConfig_parsed:
  "readFileSync f = Returns s \<Longrightarrow> JSON_parse L s = Returns d \<Longrightarrow>
   admin_getConfig L A f =
     then_io (requireAdmin A) (\<lambda>_.
       if \<not> existsSync f then Throws (ORPCError INTERNAL_ERROR
            (''Failed to read configuration: '' @ ''Configuration file not found''))
       else if nullish d then Throws (ORPCError INTERNAL_ERROR
            (''Failed to read configuration: '' @ read_TypeError L d ''postgresConfig''))
       else Returns (getConfig_response d))"
  by (simp add: admin_getConfig_def then_io_def get_prop_def split: io.splits)

text \<open>
  C9. Whatever the admin \<open>getConfig\<close> returns has no \<open>password\<close> key in its
  \<open>postgresConfig\<close>, no \<open>clientSecret\<close> and no \<open>secret\<close> key in its \<open>oidcConfig\<close> and no
  \<open>atlasApiKey\<close> key in its \<open>atlasConfig\<close>; and two stored documents that differ only in
  those four fields give the same outcome of \<open>getConfig\<close>.
\<close>

theorem admin_getConfig_hides_secrets:
  "(admin_getConfig L A f = Returns r
      \<longrightarrow> ''password'' \<notin> fst ` set (own_props (member r ''postgresConfig''))
        \<and> ''clientSecret'' \<notin> fst ` set (own_props (member r ''oidcConfig''))
        \<and> ''secret'' \<notin> fst ` set (own_props (member r ''oidcConfig''))
        \<and> ''atlasApiKey'' \<notin> fst ` set (own_props (member r ''atlasConfig'')))
   \<and> (existsSync f1 = existsSync f2
        \<and> readFileSync f1 = Returns s1 \<and> JSON_parse L s1 = Returns d1
        \<and> readFileSync f2 = Returns s2 \<and> JSON_parse L s2 = Returns d2
        \<and> without_secrets d1 = without_secrets d2
      \<longrightarrow> admin_getConfig L A f1 = admin_getConfig L A f2)"
proof -
  have keys: "''password'' \<notin> fst ` set (own_props (member r ''postgresConfig''))
        \<and> ''clientSecret'' \<notin> fst ` set (own_props (member r ''oidcConfig''))
        \<and> ''secret'' \<notin> fst ` set (own_props (member r ''oidcConfig''))
        \<and> ''atlasApiKey'' \<notin> fst ` set (own_props (member r ''atlasConfig''))"
    if run: "admin_getConfig L A f = Returns r"
  proof -
    obtain config where r: "r = getConfig_response config"
      using run admin_getConfig_returns by blast
    show ?thesis unfolding r by (simp add: getConfig_response_keys)
  qed
  have same_outcome: "admin_getConfig L A f1 = admin_getConfig L A f2"
    if h: "existsSync f1 = existsSync f2
        \<and> readFileSync f1 = Returns s1 \<and> JSON_parse L s1 = Returns d1
        \<and> readFileSync f2 = Returns s2 \<and> JSON_parse L s2 = Returns d2
        \<and> without_secrets d1 = without_secrets d2"
  proof -
    from h have eq: "without_secrets d1 = without_secrets d2" by simp
    have resp: "getConfig_response d1 = getConfig_response d2"
      using getConfig_response_without_secrets [of d1] getConfig_response_without_secrets [of d2] eq
      by simp
    have nul: "nullish d1 = nullish d2"
      using nullish_without_secrets [of d1] nullish_without_secrets [of d2] eq by simp
    have same: "nullish d1 \<Longrightarrow> d1 = d2"
      using eq without_secrets_null [of d1] without_secrets_null [of d2]
        without_secrets_undefined [of d1] without_secrets_undefined [of d2]
      by (auto simp: nullish_def)
    show ?thesis
      using h resp nul same
      by (auto simp: admin_getConfig_parsed then_io_def split: io.splits)
  qed
  show ?thesis using keys same_outcome by blast
qed

text \<open>Two stored documents with different database passwords and Atlas API keys.\<close>

theorem admin_getConfig_hides_secrets_witness:
  "admin_getConfig (two_file_lib (example_config ''pw1'' ''key1'') (example_config ''pw2'' ''key2''))
       admin_auth (example_file ''doc'')
     = Returns (getConfig_response (example_config ''pw1'' ''key1''))
   \<and> ''password'' \<notin> fst ` set (own_props
         (member (getConfig_response (example_config ''pw1'' ''key1'')) ''postgresConfig''))
   \<and> ''atlasApiKey'' \<notin> fst ` set (own_props
         (member (getConfig_response (example_config ''pw1'' ''key1'')) ''atlasConfig''))
   \<and> admin_getConfig (two_file_lib (example_config ''pw1'' ''key1'') (example_config ''pw2'' ''key2''))
       admin_auth (example_file ''doc'')
     = admin_getConfig (two_file_lib (example_config ''pw1'' ''key1'') (example_config ''pw2'' ''key2''))
       admin_auth (example_file ''doc2'')"
proof -
  let ?L = "two_file_lib (example_config ''pw1'' ''key1'') (example_config ''pw2'' ''key2'')"
  have run: "admin_getConfig ?L admin_auth (example_file ''doc'')
      = Returns (getConfig_response (example_config ''pw1'' ''key1''))"
    by (simp add: admin_getConfig_def requireAdmin_def admin_auth_def then_io_def two_file_lib_def
        example_lib_def example_file_def get_prop_def nullish_def example_config_def
        opt_prop_def member_JObj)
  have same: "without_secrets (example_config ''pw1'' ''key1'')
      = without_secrets (example_config ''pw2'' ''key2'')"
    by (simp add: without_secrets_def example_config_def strip_section_def without_key_def
        AList.delete_eq)
  show ?thesis
    using run same
      admin_getConfig_hides_secrets [where L = ?L and A = admin_auth
        and f = "example_file ''doc''" and r = "getConfig_response (example_config ''pw1'' ''key1'')"
        and ?f1.0 = "example_file ''doc''" and ?f2.0 = "example_file ''doc2''"
        and ?s1.0 = "''doc''" and ?s2.0 = "''doc2''"
        and ?d1.0 = "example_config ''pw1'' ''key1''" and ?d2.0 = "example_config ''pw2'' ''key2''"]
    by (simp add: two_file_lib_def example_lib_def example_file_def)
qed

section \<open>The presigned upload route\<close>

lemmas act_defs =
  bind_act_def catch_act_def done_act_def throw_act_def lift_io_def call_def attempt_def

text \<open>
  C5, as the route is written. \<open>POST /api/get-upload-url\<close> answers 401 without a
  session. With a session and a request body that is not \<open>null\<close>, it answers 400 when
  \<open>serverId\<close> or \<open>path\<close> is missing from the body (or falsy); else 500, without calling
  Atlas, when the stored Atlas configuration has no \<open>atlasUrl\<close> or no \<open>atlasApiKey\<close>;
  else it sends one request to Atlas, a \<open>POST\<close> to
  \<open>{atlasUrl}/api/v1/servers/{serverId}/files/upload/presign\<close> with the bearer key and the
  JSON body \<open>{path, expirationSeconds}\<close> (300 when the body gives none), and answers 200
  with the \<open>data\<close> object of Atlas's answer extended by \<open>atlasBaseUrl\<close> when that request
  succeeds, and 500 when the request throws, is not \<open>ok\<close>, or its body cannot be read or
  is \<open>null\<close>. A request body that cannot be parsed, or that is \<open>null\<close>, gives 500, and
  Atlas is not called.
\<close>

theorem get_upload_url_statuses:
  "(req_session R = Returns session \<and> \<not> truthy session
      \<longrightarrow> get_upload_url L R f m = (Returns (text_response 401 ''Unauthorized''), []))
   \<and> (req_session R = Returns session \<and> truthy session \<and> req_json R = Returns b \<and> \<not> nullish b
        \<and> (\<not> truthy (member b ''serverId'') \<or> \<not> truthy (member b ''path''))
      \<longrightarrow> get_upload_url L R f m = (Returns (text_response 400 ''Missing serverId or path''), []))
   \<and> (req_session R = Returns session \<and> truthy session \<and> req_json R = Returns b \<and> \<not> nullish b
        \<and> truthy (member b ''serverId'') \<and> truthy (member b ''path'')
        \<and> atlas_settings L f m = (atlasUrl, atlasApiKey, m')
        \<and> (\<not> truthy atlasUrl \<or> \<not> truthy atlasApiKey)
      \<longrightarrow> get_upload_url L R f m
            = (Returns (text_response 500 ''Atlas configuration not found''), []))
   \<and> (req_session R = Returns session \<and> truthy session \<and> req_json R = Returns b \<and> \<not> nullish b
        \<and> truthy (member b ''serverId'') \<and> truthy (member b ''path'')
        \<and> atlas_settings L f m = (atlasUrl, atlasApiKey, m')
        \<and> truthy atlasUrl \<and> truthy atlasApiKey
        \<and> fetch R (get_upload_url_request L atlasUrl atlasApiKey b) = Returns resp
        \<and> resp_ok resp \<and> resp_json resp = Returns atlasData \<and> \<not> nullish atlasData
      \<longrightarrow> get_upload_url L R f m =
            (Returns (json_response 200
               (obj_lit (own_props (member atlasData ''data'') @ [(''atlasBaseUrl'', atlasUrl)]))),
             [Fetch (get_upload_url_request L atlasUrl atlasApiKey b)]))
   \<and> (req_session R = Returns session \<and> truthy session \<and> req_json R = Returns b \<and> \<not> nullish b
        \<and> truthy (member b ''serverId'') \<and> truthy (member b ''path'')
        \<and> atlas_settings L f m = (atlasUrl, atlasApiKey, m')
        \<and> truthy atlasUrl \<and> truthy atlasApiKey
        \<and> (fetch R (get_upload_url_request L atlasUrl atlasApiKey b) = Throws t
             \<or> fetch R (get_upload_url_request L atlasUrl atlasApiKey b) = Returns resp
                \<and> (\<not> resp_ok resp \<or> resp_json resp = Throws t
                     \<or> resp_json resp = Returns atlasData \<and> nullish atlasData))
      \<longrightarrow> status_of (get_upload_url L R f m) = Some 500
        \<and> snd (get_upload_url L R f m) = [Fetch (get_upload_url_request L atlasUrl atlasApiKey b)])
   \<and> (req_session R = Returns session \<and> truthy session
        \<and> (req_json R = Throws t \<or> req_json R = Returns b \<and> nullish b)
      \<longrightarrow> status_of (get_upload_url L R f m) = Some 500
        \<and> snd (get_upload_url L R f m) = [])
   \<and> get_upload_url_request L atlasUrl atlasApiKey b
       = \<lparr>rq_url = js_string L atlasUrl @ ''/api/v1/servers/''
                    @ js_string L (member b ''serverId'') @ ''/files/upload/presign'',
          rq_method = ''POST'',
          rq_authorization = ''Bearer '' @ js_string L atlasApiKey,
          rq_content_type = Some ''application/json'',
          rq_body = JsonBody (JObj
            [(''path'', member b ''path''),
             (''expirationSeconds'',
                if member b ''expirationSeconds'' = JUndefined then JNum 300
                else member b ''expirationSeconds'')])\<rparr>"
proof (intro conjI)
  show "get_upload_url_request L atlasUrl atlasApiKey b
       = \<lparr>rq_url = js_string L atlasUrl @ ''/api/v1/servers/''
                    @ js_string L (member b ''serverId'') @ ''/files/upload/presign'',
          rq_method = ''POST'',
          rq_authorization = ''Bearer '' @ js_string L atlasApiKey,
          rq_content_type = Some ''application/json'',
          rq_body = JsonBody (JObj
            [(''path'', member b ''path''),
             (''expirationSeconds'',
                if member b ''expirationSeconds'' = JUndefined then JNum 300
                else member b ''expirationSeconds'')])\<rparr>"
    by (simp add: get_upload_url_request_def atlas_post_def member_default_def)
qed (auto simp: get_upload_url_def status_of_def act_defs get_prop_def checked_json_def
      text_response_def json_response_def split: io.splits)

lemma example_settings:
  "atlas_settings (example_lib d) (example_file ''doc'') example_manager
     = (JStr ''https://atlas'', JStr ''key'', example_manager)"
  by (simp add: atlas_settings_def getAtlasConfig_def getConfig_def loadConfig_def
      example_file_def example_manager_def example_config_def opt_prop_def nullish_def member_JObj)

lemma missing_settings:
  "atlas_settings (example_lib d) ((example_file ''doc'')\<lparr>existsSync := False\<rparr>) new_manager
     = (JUndefined, JUndefined, new_manager)"
  by (simp add: atlas_settings_def getAtlasConfig_def getConfig_def loadConfig_def
      example_file_def new_manager_def opt_prop_def nullish_def)

lemma js_string_simps:
  "js_string L (JStr s) = s"
  "js_string L JUndefined = ''undefined''"
  "js_string L JNull = ''null''"
  by (simp_all add: js_string_def)

text \<open>
  C5 as stated fails for the request body \<open>null\<close>: there is a session, \<open>serverId\<close> and
  \<open>path\<close> are missing from the body, and the answer is 500, not 400, because reading
  \<open>serverId\<close> from \<open>null\<close> throws inside the \<open>try\<close> and the \<open>catch\<close> answers 500.
\<close>

theorem get_upload_url_null_body_counterexample:
  "req_session (example_route\<lparr>req_json := Returns JNull\<rparr>)
     = Returns (JObj [(''user'', JObj [(''id'', JStr ''u0'')])])
   \<and> truthy (JObj [(''user'', JObj [(''id'', JStr ''u0'')])])
   \<and> req_json (example_route\<lparr>req_json := Returns JNull\<rparr>) = Returns JNull
   \<and> member JNull ''serverId'' = JUndefined
   \<and> member JNull ''path'' = JUndefined
   \<and> get_upload_url (example_lib JNull) (example_route\<lparr>req_json := Returns JNull\<rparr>)
        (example_file ''doc'') example_manager
      = (Returns (text_response 500 ''Cannot read properties of null''), [])"
  by (simp add: example_route_def get_upload_url_def act_defs get_prop_def nullish_def
      example_lib_def member_nullish)

text \<open>
  One request for each case: no session; a body without \<open>path\<close>; no stored
  configuration; Atlas answering with a presigned upload, and the request that was sent
  to it; Atlas unreachable; a \<open>null\<close> body.
\<close>

theorem get_upload_url_statuses_witness:
  "status_of (get_upload_url (example_lib JNull) (example_route\<lparr>req_session := Returns JNull\<rparr>)
      (example_file ''doc'') example_manager) = Some 401
   \<and> status_of (get_upload_url (example_lib JNull)
        (example_route\<lparr>req_json := Returns (JObj [(''serverId'', JStr ''s1'')])\<rparr>)
        (example_file ''doc'') example_manager) = Some 400
   \<and> status_of (get_upload_url (example_lib JNull) example_route
        ((example_file ''doc'')\<lparr>existsSync := False\<rparr>) new_manager) = Some 500
   \<and> get_upload_url (example_lib JNull) example_route (example_file ''doc'') example_manager
       = (Returns (json_response 200
           (JObj [(''uploadPath'', JStr ''/api/v1/upload/abc''), (''token'', JStr ''tok''),
                  (''atlasBaseUrl'', JStr ''https://atlas'')])),
          [Fetch \<lparr>rq_url = ''https://atlas/api/v1/servers/s1/files/upload/presign'',
                   rq_method = ''POST'', rq_authorization = ''Bearer key'',
                   rq_content_type = Some ''application/json'',
                   rq_body = JsonBody (JObj [(''path'', JStr ''/world/level.dat''),
                                             (''expirationSeconds'', JNum 300)])\<rparr>])
   \<and> status_of (get_upload_url (example_lib JNull)
        (example_route\<lparr>fetch := (\<lambda>rq. Throws (Error ''fetch failed''))\<rparr>)
        (example_file ''doc'') example_manager) = Some 500
   \<and> status_of (get_upload_url (example_lib JNull) (example_route\<lparr>req_json := Returns JNull\<rparr>)
        (example_file ''doc'') example_manager) = Some 500"
  using
    get_upload_url_statuses [where L = "example_lib JNull" and f = "example_file ''doc''"
      and m = example_manager and R = "example_route\<lparr>req_session := Returns JNull\<rparr>"
      and session = JNull]
    get_upload_url_statuses [where L = "example_lib JNull" and f = "example_file ''doc''"
      and m = example_manager
      and R = "example_route\<lparr>req_json := Returns (JObj [(''serverId'', JStr ''s1'')])\<rparr>"
      and session = "JObj [(''user'', JObj [(''id'', JStr ''u0'')])]"
      and b = "JObj [(''serverId'', JStr ''s1'')]"]
    get_upload_url_statuses [where L = "example_lib JNull"
      and f = "(example_file ''doc'')\<lparr>existsSync := False\<rparr>" and m = new_manager
      and R = example_route and session = "JObj [(''user'', JObj [(''id'', JStr ''u0'')])]"
      and b = "JObj [(''serverId'', JStr ''s1''), (''path'', JStr ''/world/level.dat'')]"
      and atlasUrl = JUndefined and atlasApiKey = JUndefined and m' = new_manager]
    get_upload_url_statuses [where L = "example_lib JNull" and f = "example_file ''doc''"
      and m = example_manager and R = example_route
      and session = "JObj [(''user'', JObj [(''id'', JStr ''u0'')])]"
      and b = "JObj [(''serverId'', JStr ''s1''), (''path'', JStr ''/world/level.dat'')]"
      and atlasUrl = "JStr ''https://atlas''" and atlasApiKey = "JStr ''key''"
      and m' = example_manager
      and resp = "example_response
                 (JObj [(''data'', JObj [(''uploadPath'', JStr ''/api/v1/upload/abc''),
                                         (''token'', JStr ''tok'')])])"
      and atlasData = "JObj [(''data'', JObj [(''uploadPath'', JStr ''/api/v1/upload/abc''),
                                         (''token'', JStr ''tok'')])]"]
    get_upload_url_statuses [where L = "example_lib JNull" and f = "example_file ''doc''"
      and m = example_manager
      and R = "example_route\<lparr>fetch := (\<lambda>rq. Throws (Error ''fetch failed''))\<rparr>"
      and session = "JObj [(''user'', JObj [(''id'', JStr ''u0'')])]"
      and b = "JObj [(''serverId'', JStr ''s1''), (''path'', JStr ''/world/level.dat'')]"
      and atlasUrl = "JStr ''https://atlas''" and atlasApiKey = "JStr ''key''"
      and m' = example_manager and t = "Error ''fetch failed''"]
    get_upload_url_statuses [where L = "example_lib JNull" and f = "example_file ''doc''"
      and m = example_manager and R = "example_route\<lparr>req_json := Returns JNull\<rparr>"
      and session = "JObj [(''user'', JObj [(''id'', JStr ''u0'')])]" and b = JNull]
  by (simp add: example_route_def example_response_def example_settings missing_settings
      nullish_def member_JObj obj_lit_def obj_entries_def own_props_JObj_distinct
      status_of_def text_response_def js_string_simps)

section \<open>Errors and fallback in the upload routes\<close>




























lemma example_lib_simps:
  "JSON_parse (example_lib d) ''doc'' = Returns d"
  "read_TypeError (example_lib d) v k = ''Cannot read properties of null''"
  by (simp_all add: example_lib_def)






section \<open>Saving the setup\<close>

lemma configWithTimestamp_eq:
  "configWithTimestamp e i =
     JObj [(''postgresConfig'', JObj (postgresConfig_props (in_postgresConfig i))),
           (''oidcConfig'', JObj (oidcConfig_props (in_oidcConfig i)
                                  @ [(''secret'', JStr (setup_secret e))])),
           (''atlasConfig'', JObj (atlasConfig_props (in_atlasConfig i)
              @ [(''websocketUrl'', JStr (websocketUrl_of (atlas_atlasUrl (in_atlasConfig i))))])),
           (''brandingConfig'', JObj (brandingConfig_props (in_brandingConfig i))),
           (''completedAt'', JStr (now_ISOString e)),
           (''version'', JStr (package_version e))]"
  by (simp add: configWithTimestamp_def obj_lit_def obj_entries_def setup_input_props_def
      oidcConfig_props_def atlasConfig_props_def)

lemma saveSetupConfig_success:
  "fst (saveSetupConfig e i) = Returns r \<Longrightarrow>
   r = JObj [(''success'', JBool True),
             (''message'', JStr ''Setup configuration saved successfully''),
             (''config'', configWithTimestamp e i)]
   \<and> writes (snd (saveSetupConfig e i)) = [configWithTimestamp e i]"
  by (auto simp: saveSetupConfig_def ensureConfigDir_def act_defs obj_lit_def obj_entries_def
      split: io.splits if_splits)

lemma saveSetupConfig_runs:
  "(dir_exists e \<or> mkdirSync e = Returns ()) \<Longrightarrow> writeFileSync e = Returns () \<Longrightarrow>
   reconnectDatabase e = Returns () \<Longrightarrow> migrate e = Returns () \<Longrightarrow>
   \<exists>r. fst (saveSetupConfig e i) = Returns r"
  by (auto simp: saveSetupConfig_def ensureConfigDir_def act_defs)

lemma websocketUrl_of_https: "websocketUrl_of (''https://'' @ rest) = ''wss://'' @ rest"
  by (simp add: websocketUrl_of_def replace_prefix_def starts_with_def)

lemma websocketUrl_of_http: "websocketUrl_of (''http://'' @ rest) = ''ws://'' @ rest"
  by (simp add: websocketUrl_of_def replace_prefix_def starts_with_def)

lemma websocketUrl_of_other:
  "\<not> starts_with ''https://'' u \<Longrightarrow> \<not> starts_with ''http://'' u \<Longrightarrow> websocketUrl_of u = u"
  by (simp add: websocketUrl_of_def replace_prefix_def)

lemma setup_secret_eq:
  "setup_secret e =
     (case BETTER_AUTH_SECRET e of
        Some s \<Rightarrow> if s = [] then randomBytes_base64 e else s
      | None \<Rightarrow> randomBytes_base64 e)"
  by (simp add: setup_secret_def split: option.splits)

text \<open>
  C3, as the handler is written. When the directory, the write, the database reconnect
  and the migration all succeed, \<open>saveSetupConfig\<close> succeeds; whenever it succeeds it has
  written the config file exactly once, and it returns \<open>success: true\<close> with the very
  object it wrote. That object holds the four groups of the input, \<open>oidcConfig\<close> extended
  with \<open>secret\<close> and \<open>atlasConfig\<close> extended with \<open>websocketUrl\<close>, then \<open>completedAt\<close>
  and \<open>version\<close>. The secret is the environment variable \<open>BETTER_AUTH_SECRET\<close> when it
  is set and not empty, and the base64 text of 32 random bytes otherwise. The websocket
  URL is \<open>atlasUrl\<close> with a leading \<open>https://\<close> turned into \<open>wss://\<close>, else a leading
  \<open>http://\<close> turned into \<open>ws://\<close>, else unchanged.
\<close>

theorem saveSetupConfig_persists:
  "((dir_exists e \<or> mkdirSync e = Returns ()) \<and> writeFileSync e = Returns ()
      \<and> reconnectDatabase e = Returns () \<and> migrate e = Returns ()
      \<longrightarrow> (\<exists>r. fst (saveSetupConfig e i) = Returns r))
   \<and> (fst (saveSetupConfig e i) = Returns r
      \<longrightarrow> writes (snd (saveSetupConfig e i)) = [configWithTimestamp e i]
        \<and> r = JObj [(''success'', JBool True),
                    (''message'', JStr ''Setup configuration saved successfully''),
                    (''config'', configWithTimestamp e i)])
   \<and> configWithTimestamp e i =
       JObj [(''postgresConfig'', JObj (postgresConfig_props (in_postgresConfig i))),
             (''oidcConfig'', JObj (oidcConfig_props (in_oidcConfig i)
                                    @ [(''secret'', JStr (setup_secret e))])),
             (''atlasConfig'', JObj (atlasConfig_props (in_atlasConfig i)
                @ [(''websocketUrl'', JStr (websocketUrl_of (atlas_atlasUrl (in_atlasConfig i))))])),
             (''brandingConfig'', JObj (brandingConfig_props (in_brandingConfig i))),
             (''completedAt'', JStr (now_ISOString e)),
             (''version'', JStr (package_version e))]
   \<and> setup_secret e =
       (case BETTER_AUTH_SECRET e of
          Some s \<Rightarrow> if s = [] then randomBytes_base64 e else s
        | None \<Rightarrow> randomBytes_base64 e)
   \<and> websocketUrl_of (''https://'' @ rest) = ''wss://'' @ rest
   \<and> websocketUrl_of (''http://'' @ rest) = ''ws://'' @ rest
   \<and> (\<not> starts_with ''https://'' u \<and> \<not> starts_with ''http://'' u \<longrightarrow> websocketUrl_of u = u)"
  using saveSetupConfig_success [of e i r] saveSetupConfig_runs [of e i]
    configWithTimestamp_eq [of e i] setup_secret_eq [of e]
    websocketUrl_of_https [of rest] websocketUrl_of_http [of rest] websocketUrl_of_other [of u]
  by blast

text \<open>
  C3 as stated fails where it calls the secret generated: with \<open>BETTER_AUTH_SECRET\<close> set,
  the secret written is the variable's value, not the random draw.
\<close>

theorem saveSetupConfig_secret_counterexample:
  "writes (snd (saveSetupConfig (example_env\<lparr>BETTER_AUTH_SECRET := Some ''operator-secret''\<rparr>)
      example_setup))
     = [configWithTimestamp (example_env\<lparr>BETTER_AUTH_SECRET := Some ''operator-secret''\<rparr>)
          example_setup]
   \<and> member (member (configWithTimestamp
         (example_env\<lparr>BETTER_AUTH_SECRET := Some ''operator-secret''\<rparr>) example_setup)
       ''oidcConfig'') ''secret'' = JStr ''operator-secret''
   \<and> member (member (configWithTimestamp
         (example_env\<lparr>BETTER_AUTH_SECRET := Some ''operator-secret''\<rparr>) example_setup)
       ''oidcConfig'') ''secret''
     \<noteq> JStr (randomBytes_base64 (example_env\<lparr>BETTER_AUTH_SECRET := Some ''operator-secret''\<rparr>))"
  by (simp add: saveSetupConfig_def ensureConfigDir_def act_defs example_env_def
      configWithTimestamp_eq member_JObj oidcConfig_props_def setup_secret_def)

text \<open>A first run that succeeds, without the environment variable.\<close>

theorem saveSetupConfig_persists_witness:
  "saveSetupConfig example_env example_setup
     = (Returns (JObj [(''success'', JBool True),
                       (''message'', JStr ''Setup configuration saved successfully''),
                       (''config'', configWithTimestamp example_env example_setup)]),
        [MkdirSync, WriteFileSync (configWithTimestamp example_env example_setup),
         InvalidateCache, ResetAuth, ReconnectDatabase, Migrate])
   \<and> member (member (configWithTimestamp example_env example_setup) ''oidcConfig'') ''secret''
     = JStr ''cmFuZG9tIGJ5dGVz''
   \<and> member (member (configWithTimestamp example_env example_setup) ''atlasConfig'') ''websocketUrl''
     = JStr ''wss://atlas:9090''
   \<and> websocketUrl_of ''atlas.local'' = ''atlas.local''"
proof -
  have run: "saveSetupConfig example_env example_setup
     = (Returns (JObj [(''success'', JBool True),
                       (''message'', JStr ''Setup configuration saved successfully''),
                       (''config'', configWithTimestamp example_env example_setup)]),
        [MkdirSync, WriteFileSync (configWithTimestamp example_env example_setup),
         InvalidateCache, ResetAuth, ReconnectDatabase, Migrate])"
    by (simp add: saveSetupConfig_def ensureConfigDir_def act_defs example_env_def
        obj_lit_def obj_entries_def)
  have ws: "websocketUrl_of (atlas_atlasUrl (in_atlasConfig example_setup)) = ''wss://atlas:9090''"
    using saveSetupConfig_persists [where rest = "''atlas:9090''"]
    by (simp add: example_setup_def example_atlas_def)
  have cfg: "configWithTimestamp example_env example_setup =
       JObj [(''postgresConfig'', JObj (postgresConfig_props (in_postgresConfig example_setup))),
             (''oidcConfig'', JObj (oidcConfig_props (in_oidcConfig example_setup)
                                    @ [(''secret'', JStr (setup_secret example_env))])),
             (''atlasConfig'', JObj (atlasConfig_props (in_atlasConfig example_setup)
                @ [(''websocketUrl'',
                    JStr (websocketUrl_of (atlas_atlasUrl (in_atlasConfig example_setup))))])),
             (''brandingConfig'', JObj (brandingConfig_props (in_brandingConfig example_setup))),
             (''completedAt'', JStr (now_ISOString example_env)),
             (''version'', JStr (package_version example_env))]"
    using saveSetupConfig_persists [of example_env example_setup] by blast
  have sec: "setup_secret example_env = ''cmFuZG9tIGJ5dGVz''"
    using saveSetupConfig_persists [of example_env example_setup]
    by (simp add: example_env_def)
  have plain: "websocketUrl_of ''atlas.local'' = ''atlas.local''"
    using saveSetupConfig_persists [where u = "''atlas.local''"]
    by (simp add: starts_with_def)
  show ?thesis
    using run plain
    by (simp add: cfg sec ws member_JObj oidcConfig_props_def atlasConfig_props_def)
qed

section \<open>The admin configuration updates\<close>

lemma map_of_fold_update:
  "map_of (fold (\<lambda>(k, v). AList.update k v) es acc) k =
     (case map_of (rev es) k of Some v \<Rightarrow> Some v | None \<Rightarrow> map_of acc k)"
proof (induction es arbitrary: acc)
  case Nil
  then show ?case by simp
next
  case (Cons e es)
  obtain k0 v0 where e: "e = (k0, v0)" by (cases e)
  show ?case
    by (simp add: e Cons.IH update_conv' map_add_def split: option.splits)
qed

lemma map_of_rev_distinct: "distinct (map fst xs) \<Longrightarrow> map_of (rev xs) = map_of xs"
  by (rule map_of_inject_set [THEN iffD2]) (simp_all add: rev_map [symmetric])

text \<open>What \<open>{...old, ...props}\<close> holds: the entries of \<open>props\<close>, the last one for a key, and below them the properties of \<open>old\<close>.\<close>

lemma map_of_spread:
  "map_of (own_props (obj_lit (own_props old @ props))) k =
     (case map_of (rev props) k of Some v \<Rightarrow> Some v | None \<Rightarrow> map_of (own_props old) k)"
  by (simp add: obj_lit_def obj_entries_def map_of_fold_update map_of_append map_add_def
      map_of_rev_distinct split: option.splits)

lemma spread_keeps:
  "k \<notin> fst ` set props \<Longrightarrow>
   map_of (own_props (obj_lit (own_props old @ props))) k = map_of (own_props old) k"
proof -
  assume "k \<notin> fst ` set props"
  then have "map_of (rev props) k = None"
    by (simp add: map_of_eq_None_iff)
  then show ?thesis by (simp add: map_of_spread)
qed

lemma spread_sets:
  "distinct (map fst props) \<Longrightarrow> (k, v) \<in> set props \<Longrightarrow>
   member (obj_lit (own_props old @ props)) k = v"
proof -
  assume d: "distinct (map fst props)" and m: "(k, v) \<in> set props"
  then have "map_of (rev props) k = Some v"
    by (simp add: map_of_rev_distinct)
  then have "map_of (own_props (obj_lit (own_props old @ props))) k = Some v"
    by (simp add: map_of_spread)
  then show ?thesis by (simp add: member_def)
qed

lemma set_prop_frame:
  "set_prop L config k x = Returns config' \<Longrightarrow> k' \<noteq> k \<Longrightarrow> member config' k' = member config k'"
  by (cases config) (auto simp: set_prop_def member_JObj update_conv')

lemma set_prop_section:
  "set_prop L config k x = Returns config' \<Longrightarrow>
   member config' k = x \<or> config' = config"
  by (cases config) (auto simp: set_prop_def member_JObj update_conv')

lemma set_prop_object:
  "set_prop L (JObj kvs) k x = Returns config' \<Longrightarrow> member config' k = x"
  by (auto simp: set_prop_def member_JObj update_conv')

lemma read_stored_config_result:
  "readFileSync f = Returns s \<Longrightarrow> JSON_parse L s = Returns config \<Longrightarrow>
   fst (read_stored_config L e f) = Returns c \<Longrightarrow> c = config"
  by (auto simp: read_stored_config_def ensureConfigDir_def act_defs then_io_def
      split: io.splits if_splits)

lemma read_stored_config_writes: "writes (snd (read_stored_config L e f)) = []"
  by (auto simp: read_stored_config_def ensureConfigDir_def act_defs then_io_def
      split: io.splits if_splits)

lemma postgresConfig_props_distinct: "distinct (map fst (postgresConfig_props i))"
  by (simp add: postgresConfig_props_def)

lemma authConfig_update_props_distinct: "distinct (map fst (authConfig_update_props j))"
  by (cases "au_scopes j") (simp_all add: authConfig_update_props_def oidcConfig_props_def)

lemma atlas_update_props_distinct:
  "distinct (map fst (atlasConfig_props a @
            [(''websocketUrl'', JStr (websocketUrl_of (atlas_atlasUrl a)))]))"
  by (simp add: atlasConfig_props_def)

lemma brandingConfig_update_props_distinct: "distinct (map fst (brandingConfig_update_props b))"
  by (cases "bu_logo b"; cases "bu_favicon b"; cases "bu_backgroundImage b")
     (simp_all add: brandingConfig_update_props_def)

lemma updateDatabaseConfig_write:
  "writes (snd (updateDatabaseConfig L A e f i)) = [config'] \<Longrightarrow>
   readFileSync f = Returns s \<Longrightarrow> JSON_parse L s = Returns config \<Longrightarrow>
   set_prop L config ''postgresConfig''
     (obj_lit (own_props (member config ''postgresConfig'') @ postgresConfig_props i)) = Returns config'"
  by (auto simp: updateDatabaseConfig_def read_stored_config_def ensureConfigDir_def act_defs then_io_def
      get_prop_def split: io.splits if_splits)

lemma updateDatabaseConfig_one_write: "length (writes (snd (updateDatabaseConfig L A e f i))) \<le> 1"
  by (auto simp: updateDatabaseConfig_def read_stored_config_def ensureConfigDir_def act_defs then_io_def
      get_prop_def split: io.splits if_splits)

lemma updateAuthConfig_write:
  "writes (snd (updateAuthConfig L A e f j)) = [config'] \<Longrightarrow>
   readFileSync f = Returns s \<Longrightarrow> JSON_parse L s = Returns config \<Longrightarrow>
   set_prop L config ''oidcConfig''
     (obj_lit (own_props (member config ''oidcConfig'') @ authConfig_update_props j)) = Returns config'"
  by (auto simp: updateAuthConfig_def read_stored_config_def ensureConfigDir_def act_defs then_io_def
      get_prop_def split: io.splits if_splits)

lemma updateAuthConfig_one_write: "length (writes (snd (updateAuthConfig L A e f j))) \<le> 1"
  by (auto simp: updateAuthConfig_def read_stored_config_def ensureConfigDir_def act_defs then_io_def
      get_prop_def split: io.splits if_splits)

lemma updateAtlasConfig_write:
  "writes (snd (updateAtlasConfig L A e f a)) = [config'] \<Longrightarrow>
   readFileSync f = Returns s \<Longrightarrow> JSON_parse L s = Returns config \<Longrightarrow>
   set_prop L config ''atlasConfig''
     (obj_lit (own_props (member config ''atlasConfig'') @ atlasConfig_props a @
            [(''websocketUrl'', JStr (websocketUrl_of (atlas_atlasUrl a)))])) = Returns config'"
  by (auto simp: updateAtlasConfig_def read_stored_config_def ensureConfigDir_def act_defs then_io_def
      get_prop_def split: io.splits if_splits)

lemma updateAtlasConfig_one_write: "length (writes (snd (updateAtlasConfig L A e f a))) \<le> 1"
  by (auto simp: updateAtlasConfig_def read_stored_config_def ensureConfigDir_def act_defs then_io_def
      get_prop_def split: io.splits if_splits)

lemma updateBrandingConfig_write:
  "writes (snd (updateBrandingConfig L A e f b)) = [config'] \<Longrightarrow>
   readFileSync f = Returns s \<Longrightarrow> JSON_parse L s = Returns config \<Longrightarrow>
   set_prop L config ''brandingConfig''
     (obj_lit (own_props (member config ''brandingConfig'') @ brandingConfig_update_props b)) = Returns config'"
  by (auto simp: updateBrandingConfig_def read_stored_config_def ensureConfigDir_def act_defs then_io_def
      get_prop_def split: io.splits if_splits)

lemma updateBrandingConfig_one_write: "length (writes (snd (updateBrandingConfig L A e f b))) \<le> 1"
  by (auto simp: updateBrandingConfig_def read_stored_config_def ensureConfigDir_def act_defs then_io_def
      get_prop_def split: io.splits if_splits)

lemma section_update:
  assumes "set_prop L config S (obj_lit (own_props (member config S) @ P)) = Returns config'"
    and "distinct (map fst P)"
  shows "(\<forall>k. k \<noteq> S \<longrightarrow> member config' k = member config k)
     \<and> (\<forall>k. k \<notin> fst ` set P \<longrightarrow>
           map_of (own_props (member config' S)) k = map_of (own_props (member config S)) k)
     \<and> (\<forall>kvs. config = JObj kvs \<longrightarrow> (\<forall>(k, v) \<in> set P. member (member config' S) k = v))"
proof (intro conjI allI impI)
  fix k assume "k \<noteq> S"
  with assms(1) show "member config' k = member config k"
    by (simp add: set_prop_frame)
next
  fix k assume k: "k \<notin> fst ` set P"
  from set_prop_section [OF assms(1)]
  show "map_of (own_props (member config' S)) k = map_of (own_props (member config S)) k"
  proof
    assume "member config' S = obj_lit (own_props (member config S) @ P)"
    then show ?thesis using k by (simp add: spread_keeps)
  next
    assume "config' = config"
    then show ?thesis by simp
  qed
next
  fix kvs assume c: "config = JObj kvs"
  with assms(1) have "member config' S = obj_lit (own_props (member config S) @ P)"
    by (simp add: set_prop_object)
  then show "\<forall>(k, v) \<in> set P. member (member config' S) k = v"
    using assms(2) by (auto simp: spread_sets)
qed

text \<open>
  C10. Each update handler writes the config file at most once, and what it writes differs
  from the stored document only in its own section: every other member (\<open>completedAt\<close> and
  \<open>version\<close> among them) is unchanged; inside the section, every key that the input does
  not hold keeps its value; and, the stored document being an object, every key that the
  input holds gets the input's value. The input of \<open>updateAtlasConfig\<close> counts with the
  \<open>websocketUrl\<close> derived from its \<open>atlasUrl\<close>.
\<close>

theorem config_updates_frame:
  "length (writes (snd (updateDatabaseConfig L A e f i))) \<le> 1
   \<and> length (writes (snd (updateAuthConfig L A e f j))) \<le> 1
   \<and> length (writes (snd (updateAtlasConfig L A e f a))) \<le> 1
   \<and> length (writes (snd (updateBrandingConfig L A e f b))) \<le> 1
   \<and> (readFileSync f = Returns s \<and> JSON_parse L s = Returns config
        \<and> writes (snd (updateDatabaseConfig L A e f i)) = [config']
      \<longrightarrow> (\<forall>k. k \<noteq> ''postgresConfig'' \<longrightarrow> member config' k = member config k)
        \<and> (\<forall>k. k \<notin> fst ` set (postgresConfig_props i) \<longrightarrow>
              map_of (own_props (member config' ''postgresConfig'')) k
                = map_of (own_props (member config ''postgresConfig'')) k)
        \<and> (\<forall>kvs. config = JObj kvs \<longrightarrow>
              (\<forall>(k, v) \<in> set (postgresConfig_props i).
                 member (member config' ''postgresConfig'') k = v)))
   \<and> (readFileSync f = Returns s \<and> JSON_parse L s = Returns config
        \<and> writes (snd (updateAuthConfig L A e f j)) = [config']
      \<longrightarrow> (\<forall>k. k \<noteq> ''oidcConfig'' \<longrightarrow> member config' k = member config k)
        \<and> (\<forall>k. k \<notin> fst ` set (authConfig_update_props j) \<longrightarrow>
              map_of (own_props (member config' ''oidcConfig'')) k
                = map_of (own_props (member config ''oidcConfig'')) k)
        \<and> (\<forall>kvs. config = JObj kvs \<longrightarrow>
              (\<forall>(k, v) \<in> set (authConfig_update_props j).
                 member (member config' ''oidcConfig'') k = v)))
   \<and> (readFileSync f = Returns s \<and> JSON_parse L s = Returns config
        \<and> writes (snd (updateAtlasConfig L A e f a)) = [config']
      \<longrightarrow> (\<forall>k. k \<noteq> ''atlasConfig'' \<longrightarrow> member config' k = member config k)
        \<and> (\<forall>k. k \<notin> fst ` set (atlasConfig_props a @
              [(''websocketUrl'', JStr (websocketUrl_of (atlas_atlasUrl a)))]) \<longrightarrow>
              map_of (own_props (member config' ''atlasConfig'')) k
                = map_of (own_props (member config ''atlasConfig'')) k)
        \<and> (\<forall>kvs. config = JObj kvs \<longrightarrow>
              (\<forall>(k, v) \<in> set (atlasConfig_props a @
              [(''websocketUrl'', JStr (websocketUrl_of (atlas_atlasUrl a)))]).
                 member (member config' ''atlasConfig'') k = v)))
   \<and> (readFileSync f = Returns s \<and> JSON_parse L s = Returns config
        \<and> writes (snd (updateBrandingConfig L A e f b)) = [config']
      \<longrightarrow> (\<forall>k. k \<noteq> ''brandingConfig'' \<longrightarrow> member config' k = member config k)
        \<and> (\<forall>k. k \<notin> fst ` set (brandingConfig_update_props b) \<longrightarrow>
              map_of (own_props (member config' ''brandingConfig'')) k
                = map_of (own_props (member config ''brandingConfig'')) k)
        \<and> (\<forall>kvs. config = JObj kvs \<longrightarrow>
              (\<forall>(k, v) \<in> set (brandingConfig_update_props b).
                 member (member config' ''brandingConfig'') k = v)))"
proof (intro conjI)
  show "length (writes (snd (updateDatabaseConfig L A e f i))) \<le> 1"
    by (rule updateDatabaseConfig_one_write)
  show "length (writes (snd (updateAuthConfig L A e f j))) \<le> 1"
    by (rule updateAuthConfig_one_write)
  show "length (writes (snd (updateAtlasConfig L A e f a))) \<le> 1"
    by (rule updateAtlasConfig_one_write)
  show "length (writes (snd (updateBrandingConfig L A e f b))) \<le> 1"
    by (rule updateBrandingConfig_one_write)
  show "readFileSync f = Returns s \<and> JSON_parse L s = Returns config
        \<and> writes (snd (updateDatabaseConfig L A e f i)) = [config']
      \<longrightarrow> (\<forall>k. k \<noteq> ''postgresConfig'' \<longrightarrow> member config' k = member config k)
        \<and> (\<forall>k. k \<notin> fst ` set (postgresConfig_props i) \<longrightarrow>
              map_of (own_props (member config' ''postgresConfig'')) k
                = map_of (own_props (member config ''postgresConfig'')) k)
        \<and> (\<forall>kvs. config = JObj kvs \<longrightarrow>
              (\<forall>(k, v) \<in> set (postgresConfig_props i).
                 member (member config' ''postgresConfig'') k = v))"
  proof (rule impI)
    assume h: "readFileSync f = Returns s \<and> JSON_parse L s = Returns config
        \<and> writes (snd (updateDatabaseConfig L A e f i)) = [config']"
    then have w: "set_prop L config ''postgresConfig''
        (obj_lit (own_props (member config ''postgresConfig'') @ (postgresConfig_props i))) = Returns config'"
      using updateDatabaseConfig_write [of L A e f i config' s config] by simp
    show "(\<forall>k. k \<noteq> ''postgresConfig'' \<longrightarrow> member config' k = member config k)
        \<and> (\<forall>k. k \<notin> fst ` set (postgresConfig_props i) \<longrightarrow>
              map_of (own_props (member config' ''postgresConfig'')) k
                = map_of (own_props (member config ''postgresConfig'')) k)
        \<and> (\<forall>kvs. config = JObj kvs \<longrightarrow>
              (\<forall>(k, v) \<in> set (postgresConfig_props i).
                 member (member config' ''postgresConfig'') k = v))"
      by (rule section_update [OF w postgresConfig_props_distinct])
  qed
  show "readFileSync f = Returns s \<and> JSON_parse L s = Returns config
        \<and> writes (snd (updateAuthConfig L A e f j)) = [config']
      \<longrightarrow> (\<forall>k. k \<noteq> ''oidcConfig'' \<longrightarrow> member config' k = member config k)
        \<and> (\<forall>k. k \<notin> fst ` set (authConfig_update_props j) \<longrightarrow>
              map_of (own_props (member config' ''oidcConfig'')) k
                = map_of (own_props (member config ''oidcConfig'')) k)
        \<and> (\<forall>kvs. config = JObj kvs \<longrightarrow>
              (\<forall>(k, v) \<in> set (authConfig_update_props j).
                 member (member config' ''oidcConfig'') k = v))"
  proof (rule impI)
    assume h: "readFileSync f = Returns s \<and> JSON_parse L s = Returns config
        \<and> writes (snd (updateAuthConfig L A e f j)) = [config']"
    then have w: "set_prop L config ''oidcConfig''
        (obj_lit (own_props (member config ''oidcConfig'') @ (authConfig_update_props j))) = Returns config'"
      using updateAuthConfig_write [of L A e f j config' s config] by simp
    show "(\<forall>k. k \<noteq> ''oidcConfig'' \<longrightarrow> member config' k = member config k)
        \<and> (\<forall>k. k \<notin> fst ` set (authConfig_update_props j) \<longrightarrow>
              map_of (own_props (member config' ''oidcConfig'')) k
                = map_of (own_props (member config ''oidcConfig'')) k)
        \<and> (\<forall>kvs. config = JObj kvs \<longrightarrow>
              (\<forall>(k, v) \<in> set (authConfig_update_props j).
                 member (member config' ''oidcConfig'') k = v))"
      by (rule section_update [OF w authConfig_update_props_distinct])
  qed
  show "readFileSync f = Returns s \<and> JSON_parse L s = Returns config
        \<and> writes (snd (updateAtlasConfig L A e f a)) = [config']
      \<longrightarrow> (\<forall>k. k \<noteq> ''atlasConfig'' \<longrightarrow> member config' k = member config k)
        \<and> (\<forall>k. k \<notin> fst ` set (atlasConfig_props a @
              [(''websocketUrl'', JStr (websocketUrl_of (atlas_atlasUrl a)))]) \<longrightarrow>
              map_of (own_props (member config' ''atlasConfig'')) k
                = map_of (own_props (member config ''atlasConfig'')) k)
        \<and> (\<forall>kvs. config = JObj kvs \<longrightarrow>
              (\<forall>(k, v) \<in> set (atlasConfig_props a @
              [(''websocketUrl'', JStr (websocketUrl_of (atlas_atlasUrl a)))]).
                 member (member config' ''atlasConfig'') k = v))"
  proof (rule impI)
    assume h: "readFileSync f = Returns s \<and> JSON_parse L s = Returns config
        \<and> writes (snd (updateAtlasConfig L A e f a)) = [config']"
    then have w: "set_prop L config ''atlasConfig''
        (obj_lit (own_props (member config ''atlasConfig'') @ (atlasConfig_props a @
              [(''websocketUrl'', JStr (websocketUrl_of (atlas_atlasUrl a)))]))) = Returns config'"
      using updateAtlasConfig_write [of L A e f a config' s config] by simp
    show "(\<forall>k. k \<noteq> ''atlasConfig'' \<longrightarrow> member config' k = member config k)
        \<and> (\<forall>k. k \<notin> fst ` set (atlasConfig_props a @
              [(''websocketUrl'', JStr (websocketUrl_of (atlas_atlasUrl a)))]) \<longrightarrow>
              map_of (own_props (member config' ''atlasConfig'')) k
                = map_of (own_props (member config ''atlasConfig'')) k)
        \<and> (\<forall>kvs. config = JObj kvs \<longrightarrow>
              (\<forall>(k, v) \<in> set (atlasConfig_props a @
              [(''websocketUrl'', JStr (websocketUrl_of (atlas_atlasUrl a)))]).
                 member (member config' ''atlasConfig'') k = v))"
      by (rule section_update [OF w atlas_update_props_distinct])
  qed
  show "readFileSync f = Returns s \<and> JSON_parse L s = Returns config
        \<and> writes (snd (updateBrandingConfig L A e f b)) = [config']
      \<longrightarrow> (\<forall>k. k \<noteq> ''brandingConfig'' \<longrightarrow> member config' k = member config k)
        \<and> (\<forall>k. k \<notin> fst ` set (brandingConfig_update_props b) \<longrightarrow>
              map_of (own_props (member config' ''brandingConfig'')) k
                = map_of (own_props (member config ''brandingConfig'')) k)
        \<and> (\<forall>kvs. config = JObj kvs \<longrightarrow>
              (\<forall>(k, v) \<in> set (brandingConfig_update_props b).
                 member (member config' ''brandingConfig'') k = v))"
  proof (rule impI)
    assume h: "readFileSync f = Returns s \<and> JSON_parse L s = Returns config
        \<and> writes (snd (updateBrandingConfig L A e f b)) = [config']"
    then have w: "set_prop L config ''brandingConfig''
        (obj_lit (own_props (member config ''brandingConfig'') @ (brandingConfig_update_props b))) = Returns config'"
      using updateBrandingConfig_write [of L A e f b config' s config] by simp
    show "(\<forall>k. k \<noteq> ''brandingConfig'' \<longrightarrow> member config' k = member config k)
        \<and> (\<forall>k. k \<notin> fst ` set (brandingConfig_update_props b) \<longrightarrow>
              map_of (own_props (member config' ''brandingConfig'')) k
                = map_of (own_props (member config ''brandingConfig'')) k)
        \<and> (\<forall>kvs. config = JObj kvs \<longrightarrow>
              (\<forall>(k, v) \<in> set (brandingConfig_update_props b).
                 member (member config' ''brandingConfig'') k = v))"
      by (rule section_update [OF w brandingConfig_update_props_distinct])
  qed
qed

lemma example_updates_write:
  "length (writes (snd (updateDatabaseConfig (example_lib stored_config) admin_auth example_env
      (example_file ''doc'') example_postgres))) = 1"
  "length (writes (snd (updateAuthConfig (example_lib stored_config) admin_auth example_env
      (example_file ''doc'') example_auth_update))) = 1"
  "length (writes (snd (updateAtlasConfig (example_lib stored_config) admin_auth example_env
      (example_file ''doc'') example_atlas))) = 1"
  "length (writes (snd (updateBrandingConfig (example_lib stored_config) admin_auth example_env
      (example_file ''doc'') example_branding_update))) = 1"
  by (simp_all add: updateDatabaseConfig_def updateAuthConfig_def updateAtlasConfig_def
      updateBrandingConfig_def requireAdmin_def admin_auth_def opt_prop_def nullish_def
      member_JObj read_stored_config_def ensureConfigDir_def example_env_def example_file_def
      example_lib_simps act_defs then_io_def get_prop_def set_prop_def stored_config_def)

text \<open>
  The four updates on a stored document that holds, in each section, a key the input does
  not have: that key, the other sections and \<open>version\<close> are as before, and the keys of the
  input hold the input's values.
\<close>

theorem config_updates_frame_witness:
  "(let w = hd (writes (snd (updateDatabaseConfig (example_lib stored_config) admin_auth
               example_env (example_file ''doc'') example_postgres)))
    in member w ''version'' = JStr ''1.0.0''
       \<and> member w ''oidcConfig'' = member stored_config ''oidcConfig''
       \<and> map_of (own_props (member w ''postgresConfig'')) ''ssl'' = Some (JBool True)
       \<and> member (member w ''postgresConfig'') ''host'' = JStr ''db'')
   \<and> (let w = hd (writes (snd (updateAuthConfig (example_lib stored_config) admin_auth
               example_env (example_file ''doc'') example_auth_update)))
      in member w ''postgresConfig'' = member stored_config ''postgresConfig''
       \<and> map_of (own_props (member w ''oidcConfig'')) ''secret'' = Some (JStr ''ss'')
       \<and> member (member w ''oidcConfig'') ''clientId'' = JStr ''web'')
   \<and> (let w = hd (writes (snd (updateAtlasConfig (example_lib stored_config) admin_auth
               example_env (example_file ''doc'') example_atlas)))
      in member w ''brandingConfig'' = member stored_config ''brandingConfig''
       \<and> map_of (own_props (member w ''atlasConfig'')) ''timeout'' = Some (JNum 30)
       \<and> member (member w ''atlasConfig'') ''websocketUrl'' = JStr ''wss://atlas:9090'')
   \<and> (let w = hd (writes (snd (updateBrandingConfig (example_lib stored_config) admin_auth
               example_env (example_file ''doc'') example_branding_update)))
      in member w ''atlasConfig'' = member stored_config ''atlasConfig''
       \<and> map_of (own_props (member w ''brandingConfig'')) ''favicon'' = Some (JStr ''f.ico'')
       \<and> member (member w ''brandingConfig'') ''displayName'' = JStr ''Atlas'')"
proof -
  let ?L = "example_lib stored_config" and ?f = "example_file ''doc''"
  have rd: "readFileSync ?f = Returns ''doc''" "JSON_parse ?L ''doc'' = Returns stored_config"
    by (simp_all add: example_file_def example_lib_simps)
  obtain w1 where w1: "writes (snd (updateDatabaseConfig ?L admin_auth example_env ?f
      example_postgres)) = [w1]"
    using example_updates_write(1) by (auto simp: length_Suc_conv)
  obtain w2 where w2: "writes (snd (updateAuthConfig ?L admin_auth example_env ?f
      example_auth_update)) = [w2]"
    using example_updates_write(2) by (auto simp: length_Suc_conv)
  obtain w3 where w3: "writes (snd (updateAtlasConfig ?L admin_auth example_env ?f
      example_atlas)) = [w3]"
    using example_updates_write(3) by (auto simp: length_Suc_conv)
  obtain w4 where w4: "writes (snd (updateBrandingConfig ?L admin_auth example_env ?f
      example_branding_update)) = [w4]"
    using example_updates_write(4) by (auto simp: length_Suc_conv)
  note t1 = config_updates_frame [where L = ?L and A = admin_auth and e = example_env and f = ?f
      and s = "''doc''" and config = stored_config and i = example_postgres and config' = w1]
  note t2 = config_updates_frame [where L = ?L and A = admin_auth and e = example_env and f = ?f
      and s = "''doc''" and config = stored_config and j = example_auth_update and config' = w2]
  note t3 = config_updates_frame [where L = ?L and A = admin_auth and e = example_env and f = ?f
      and s = "''doc''" and config = stored_config and a = example_atlas and config' = w3]
  note t4 = config_updates_frame [where L = ?L and A = admin_auth and e = example_env and f = ?f
      and s = "''doc''" and config = stored_config and b = example_branding_update
      and config' = w4]
  have d: "member w1 ''version'' = JStr ''1.0.0''
       \<and> member w1 ''oidcConfig'' = member stored_config ''oidcConfig''
       \<and> map_of (own_props (member w1 ''postgresConfig'')) ''ssl'' = Some (JBool True)
       \<and> member (member w1 ''postgresConfig'') ''host'' = JStr ''db''"
    using t1 rd w1
    by (auto simp: stored_config_def member_JObj postgresConfig_props_def example_postgres_def)
  have a: "member w2 ''postgresConfig'' = member stored_config ''postgresConfig''
       \<and> map_of (own_props (member w2 ''oidcConfig'')) ''secret'' = Some (JStr ''ss'')
       \<and> member (member w2 ''oidcConfig'') ''clientId'' = JStr ''web''"
    using t2 rd w2
    by (auto simp: stored_config_def member_JObj authConfig_update_props_def
        oidcConfig_props_def example_auth_update_def example_oidc_def)
  have at: "member w3 ''brandingConfig'' = member stored_config ''brandingConfig''
       \<and> map_of (own_props (member w3 ''atlasConfig'')) ''timeout'' = Some (JNum 30)
       \<and> member (member w3 ''atlasConfig'') ''websocketUrl'' = JStr ''wss://atlas:9090''"
    using t3 rd w3
    by (auto simp: stored_config_def member_JObj atlasConfig_props_def example_atlas_def
        websocketUrl_of_def replace_prefix_def starts_with_def)
  have br: "member w4 ''atlasConfig'' = member stored_config ''atlasConfig''
       \<and> map_of (own_props (member w4 ''brandingConfig'')) ''favicon'' = Some (JStr ''f.ico'')
       \<and> member (member w4 ''brandingConfig'') ''displayName'' = JStr ''Atlas''"
    using t4 rd w4
    by (auto simp: stored_config_def member_JObj brandingConfig_update_props_def
        example_branding_update_def)
  show ?thesis
    using d a at br by (simp add: w1 w2 w3 w4)
qed

section \<open>The chunked upload\<close>















section \<open>Rounding to binary64\<close>



















section \<open>The reported progress\<close>











end
